theory Spec2Isabelle
  imports Complex_Main "HOL-Library.Multiset"
begin

section \<open>Sena: the chat orchestration of the Lumen front end\<close>

text \<open>
  The development embeds the orchestration code of the React component \<^verbatim>\<open>App\<close>
  (\<^verbatim>\<open>MistralService.sendMessage\<close>, \<^verbatim>\<open>loadChatHistory\<close>,
  \<^verbatim>\<open>saveMessageToHistory\<close>, \<^verbatim>\<open>handleSendMessage\<close>,
  \<^verbatim>\<open>handleClearChat\<close>) as functions on an explicit world state.

  Conventions of the embedding:
  \<^item> A JavaScript string is its sequence of UTF-8 bytes, so the non-ASCII letters of the
    Portuguese literals appear as byte lists. A surrogate without its partner, which a
    JSON escape can put into a string, is the three bytes of its code point (\<^verbatim>\<open>ED\<close>,
    then a byte from \<^verbatim>\<open>A0\<close> to \<^verbatim>\<open>BF\<close>, then one more); well-formed UTF-8 has no such
    bytes.
  \<^item> An exception is a value \<open>Inl e\<close> of a sum type; \<^verbatim>\<open>try\<close>/\<^verbatim>\<open>catch\<close> is a case
    distinction on it.
  \<^item> The component's React state, the browser's local storage entry and the remote table
    are fields of one record; a state update \<^verbatim>\<open>setMessages(prev => ...)\<close> is applied
    at the point of the call, and a handler sees the state of the moment it is called
    (one handler runs at a time, from the latest render).
  \<^item> What the environment decides (the completion service's answers, the clock, whether an
    insert into the remote table succeeds) is an explicit parameter. An insert takes effect
    at the point it is issued.
\<close>

subsection \<open>JSON texts and JavaScript values\<close>

text \<open>
  A JSON text is represented by what \<^verbatim>\<open>JSON.parse\<close> makes of it: the value it denotes,
  or the message of the \<^verbatim>\<open>SyntaxError\<close> the engine raises for it. The empty string is
  kept apart because the code tests texts for truthiness before parsing them.
  \<^verbatim>\<open>JSON.stringify\<close> of a value is then the text denoting that value.
\<close>

datatype 'a json_text = Empty_text | Malformed string | Text_of 'a

datatype js_error = Error string | SyntaxError string | TypeError string | URIError string

fun error_message :: "js_error \<Rightarrow> string" where
  "error_message (Error m) = m"
| "error_message (SyntaxError m) = m"
| "error_message (TypeError m) = m"
| "error_message (URIError m) = m"

definition JSON_parse :: "'a json_text \<Rightarrow> js_error + 'a" where
  "JSON_parse t =
     (case t of
        Empty_text \<Rightarrow> Inl (SyntaxError ''Unexpected end of JSON input'')
      | Malformed m \<Rightarrow> Inl (SyntaxError m)
      | Text_of v \<Rightarrow> Inr v)"

definition JSON_stringify :: "'a \<Rightarrow> 'a json_text" where
  "JSON_stringify v = Text_of v"

text \<open>
  The values a JSON text can denote. A number is carried as the decimal text that
  \<^verbatim>\<open>String(n)\<close> gives for it, which is all the code does with a number. An object is
  the list of its own properties, each name once (\<^verbatim>\<open>JSON.parse\<close> keeps the last of
  equal names).
\<close>

datatype js_value =
    JNull
  | JBool bool
  | JNum string
  | JStr string
  | JArr "js_value list"
  | JObj "(string \<times> js_value) list"

text \<open>
  Reading the property \<open>p\<close> of a parsed value, for the two properties the code reads
  (\<^verbatim>\<open>prompt\<close> and \<^verbatim>\<open>query\<close>, which no prototype defines): \<^verbatim>\<open>null\<close> raises a
  \<^verbatim>\<open>TypeError\<close>, an object yields its entry or \<^verbatim>\<open>undefined\<close> (\<open>None\<close>), any other
  value yields \<^verbatim>\<open>undefined\<close>.
\<close>

fun get_property :: "js_value \<Rightarrow> string \<Rightarrow> js_error + js_value option" where
  "get_property JNull p =
     Inl (TypeError (''Cannot read properties of null (reading '' @ [CHR 0x27] @ p @ [CHR 0x27] @ '')''))"
| "get_property (JObj kvs) p = Inr (map_of kvs p)"
| "get_property v p = Inr None"

fun join_comma :: "string list \<Rightarrow> string" where
  "join_comma [] = []"
| "join_comma [s] = s"
| "join_comma (s # t # ss) = s @ '','' @ join_comma (t # ss)"

text \<open>
  \<^verbatim>\<open>String(v)\<close>, the conversion a template literal and \<^verbatim>\<open>encodeURIComponent\<close>
  apply. An array joins the conversions of its elements, \<^verbatim>\<open>null\<close> counting as the
  empty string. An object is converted by its \<^verbatim>\<open>toString\<close>: the inherited one gives
  \<^verbatim>\<open>[object Object]\<close>; an own property \<^verbatim>\<open>toString\<close>, which in a parsed value is never
  a function, hides it, the inherited \<^verbatim>\<open>valueOf\<close> returns the object itself, and the
  conversion raises a \<^verbatim>\<open>TypeError\<close>.
\<close>

fun js_String :: "js_value \<Rightarrow> js_error + string"
  and js_Strings :: "js_value list \<Rightarrow> js_error + string list" where
  "js_String JNull = Inr ''null''"
| "js_String (JBool b) = Inr (if b then ''true'' else ''false'')"
| "js_String (JNum d) = Inr d"
| "js_String (JStr s) = Inr s"
| "js_String (JArr vs) =
     (case js_Strings vs of Inl e \<Rightarrow> Inl e | Inr ss \<Rightarrow> Inr (join_comma ss))"
| "js_String (JObj kvs) =
     (if map_of kvs ''toString'' \<noteq> None
      then Inl (TypeError ''Cannot convert object to primitive value'')
      else Inr ''[object Object]'')"
| "js_Strings [] = Inr []"
| "js_Strings (v # vs) =
     (case (if v = JNull then Inr [] else js_String v) of
        Inl e \<Rightarrow> Inl e
      | Inr s \<Rightarrow> (case js_Strings vs of Inl e \<Rightarrow> Inl e | Inr ss \<Rightarrow> Inr (s # ss)))"

definition template_String :: "js_value option \<Rightarrow> js_error + string" where
  "template_String v = (case v of None \<Rightarrow> Inr ''undefined'' | Some x \<Rightarrow> js_String x)"

text \<open>\<^verbatim>\<open>v || alternative\<close> tests the truthiness of \<open>v\<close>.\<close>

fun truthy :: "js_value option \<Rightarrow> bool" where
  "truthy None = False"
| "truthy (Some JNull) = False"
| "truthy (Some (JBool b)) = b"
| "truthy (Some (JNum d)) = (d \<noteq> ''0'')"
| "truthy (Some (JStr s)) = (s \<noteq> [])"
| "truthy (Some (JArr vs)) = True"
| "truthy (Some (JObj kvs)) = True"

text \<open>
  \<^verbatim>\<open>encodeURIComponent\<close> on the bytes of a string: a surrogate without its partner
  raises a \<^verbatim>\<open>URIError\<close>; otherwise the unreserved characters stay and every other
  byte becomes \<^verbatim>\<open>%XX\<close> in upper-case hexadecimal.
\<close>

definition uri_unreserved :: "char \<Rightarrow> bool" where
  "uri_unreserved c \<longleftrightarrow>
     c \<in> set (''ABCDEFGHIJKLMNOPQRSTUVWXYZabcdefghijklmnopqrstuvwxyz0123456789-_.!~*()'' @ [CHR 0x27])"

definition hex_digit :: "nat \<Rightarrow> char" where
  "hex_digit n = ''0123456789ABCDEF'' ! (n mod 16)"

definition percent_byte :: "char \<Rightarrow> string" where
  "percent_byte c =
     (if uri_unreserved c then [c]
      else [CHR ''%'', hex_digit (of_char c div 16), hex_digit (of_char c)])"

fun lone_surrogate :: "string \<Rightarrow> bool" where
  "lone_surrogate (a # b # s) =
     ((a = CHR 0xED \<and> 0xA0 \<le> (of_char b :: nat) \<and> (of_char b :: nat) \<le> 0xBF) \<or>
      lone_surrogate (b # s))"
| "lone_surrogate s = False"

definition encodeURIComponent :: "string \<Rightarrow> js_error + string" where
  "encodeURIComponent s =
     (if lone_surrogate s then Inl (URIError ''URI malformed'')
      else Inr (concat (map percent_byte s)))"


text \<open>
  \<^verbatim>\<open>!userInput.trim()\<close> holds exactly when every code point of the input is white space
  or a line terminator of ECMAScript; \<open>blank\<close> decides this on the UTF-8 bytes.
\<close>

definition white1 :: "char \<Rightarrow> bool" where
  "white1 a \<longleftrightarrow> a \<in> set [CHR 0x09, CHR 0x0A, CHR 0x0B, CHR 0x0C, CHR 0x0D, CHR 0x20]"

definition white2 :: "char \<Rightarrow> char \<Rightarrow> bool" where
  "white2 a b \<longleftrightarrow> a = CHR 0xC2 \<and> b = CHR 0xA0"

definition white3 :: "char \<Rightarrow> char \<Rightarrow> char \<Rightarrow> bool" where
  "white3 a b c \<longleftrightarrow>
     [a, b, c] \<in> set
       [[CHR 0xE1, CHR 0x9A, CHR 0x80], [CHR 0xE2, CHR 0x80, CHR 0x80],
        [CHR 0xE2, CHR 0x80, CHR 0x81], [CHR 0xE2, CHR 0x80, CHR 0x82],
        [CHR 0xE2, CHR 0x80, CHR 0x83], [CHR 0xE2, CHR 0x80, CHR 0x84],
        [CHR 0xE2, CHR 0x80, CHR 0x85], [CHR 0xE2, CHR 0x80, CHR 0x86],
        [CHR 0xE2, CHR 0x80, CHR 0x87], [CHR 0xE2, CHR 0x80, CHR 0x88],
        [CHR 0xE2, CHR 0x80, CHR 0x89], [CHR 0xE2, CHR 0x80, CHR 0x8A],
        [CHR 0xE2, CHR 0x80, CHR 0xA8], [CHR 0xE2, CHR 0x80, CHR 0xA9],
        [CHR 0xE2, CHR 0x80, CHR 0xAF], [CHR 0xE2, CHR 0x81, CHR 0x9F],
        [CHR 0xE3, CHR 0x80, CHR 0x80], [CHR 0xEF, CHR 0xBB, CHR 0xBF]]"

fun blank :: "string \<Rightarrow> bool" where
  "blank [] = True"
| "blank (a # b # c # s) =
     (if white1 a then blank (b # c # s)
      else if white2 a b then blank (c # s)
      else white3 a b c \<and> blank s)"
| "blank [a, b] = (if white1 a then blank [b] else white2 a b)"
| "blank [a] = white1 a"

subsection \<open>Messages\<close>

datatype role = User | Assistant | System | Tool

text \<open>
  \<^verbatim>\<open>ToolCall\<close>: \<^verbatim>\<open>{id, type: 'function', function: {name, arguments}}\<close>. The field
  \<^verbatim>\<open>type\<close> has one value and is left out; \<^verbatim>\<open>arguments\<close> is a JSON text.
\<close>

record tool_call =
  tc_id :: string
  fn_name :: string
  fn_arguments :: "js_value json_text"

text \<open>\<^verbatim>\<open>Message\<close>; an optional field that is \<^verbatim>\<open>undefined\<close> or \<^verbatim>\<open>null\<close> is \<open>None\<close>.\<close>

record message =
  role :: role
  content :: string
  tool_calls :: "tool_call list option"
  tool_call_id :: "string option"
  name :: "string option"

datatype mode = Explicativo | Profissional | Descontraido

subsection \<open>\<^verbatim>\<open>MistralService\<close>: tools and system prompt\<close>

record tool_schema =
  schema_name :: string
  schema_description :: string
  schema_properties :: "(string \<times> string \<times> string) list"
  schema_required :: "string list"

definition tools :: "tool_schema list" where
  "tools =
    [\<lparr>schema_name = ''generate_image'',
      schema_description =
     ''Gera uma imagem baseada em uma descri'' @ [CHR 0xC3, CHR 0xA7, CHR 0xC3, CHR 0xA3] @
       ''o visual detalhada (prompt). Use sempre que o usu'' @ [CHR 0xC3, CHR 0xA1] @
       ''rio pedir para desenhar, criar imagem, ilustrar ou visualiza'' @ ''r algo.'',
      schema_properties = [(''prompt'', ''string'',
     ''A descri'' @ [CHR 0xC3, CHR 0xA7, CHR 0xC3, CHR 0xA3] @
       ''o visual detalhada da imagem, preferencialmente em ingl'' @ [CHR 0xC3, CHR 0xAA] @
       ''s para melhor qualidade.'')],
      schema_required = [''prompt'']\<rparr>,
     \<lparr>schema_name = ''web_search'',
      schema_description =
     ''Realiza uma busca simulada na web para obter informa'' @
       [CHR 0xC3, CHR 0xA7, CHR 0xC3, CHR 0xB5] @ ''es atuais sobre t'' @
       [CHR 0xC3, CHR 0xB3] @ ''picos que voc'' @ [CHR 0xC3, CHR 0xAA] @ '' n'' @
       [CHR 0xC3, CHR 0xA3] @ ''o tem certeza ou not'' @ [CHR 0xC3, CHR 0xAD] @
       ''cias recentes.'',
      schema_properties = [(''query'', ''string'', ''O termo de busca otimizado.'')],
      schema_required = [''query'']\<rparr>]"

text \<open>\<^verbatim>\<open>mode.toUpperCase()\<close>, tabulated for the three modes.\<close>

fun toUpperCase :: "mode \<Rightarrow> string" where
  "toUpperCase Explicativo = ''EXPLICATIVO''"
| "toUpperCase Profissional = ''PROFISSIONAL''"
| "toUpperCase Descontraido = ''DESCONTRA'' @ [CHR 0xC3, CHR 0x8D] @ ''DO''"

fun modeSpecifics :: "mode \<Rightarrow> string" where
  "modeSpecifics Explicativo =
     ''\<newline>'' @ ''      - Seu tom '' @ [CHR 0xC3, CHR 0xA9] @ '' paciente, did'' @
     [CHR 0xC3, CHR 0xA1] @ ''tico e acolhedor.\<newline>'' @
     ''      - Explique termos t'' @ [CHR 0xC3, CHR 0xA9] @ ''cnicos.\<newline>'' @
     ''      - Ideal para idosos e leigos.\<newline>'' @
     ''      - Se usar ferramentas, explique o que est'' @ [CHR 0xC3, CHR 0xA1] @
     '' fazendo.''"
| "modeSpecifics Profissional =
     ''\<newline>'' @ ''      - Seu tom '' @ [CHR 0xC3, CHR 0xA9] @
     '' executivo, direto e focado em efici'' @ [CHR 0xC3, CHR 0xAA] @ ''ncia.\<newline>'' @
     ''      - Ideal para programadores e ambiente corporativo.\<newline>'' @
     ''      - Respostas concisas e tecnicamente densas.''"
| "modeSpecifics Descontraido =
     ''\<newline>'' @ ''      - Seu tom '' @ [CHR 0xC3, CHR 0xA9] @
     '' leve, divertido e criativo.\<newline>'' @
     ''      - Pode usar emojis e humor moderado.\<newline>'' @
     ''      - Ideal para conversas casuais e brainstorming criativ'' @ ''o.''"

definition basePrompt :: "mode \<Rightarrow> string" where
  "basePrompt mode =
     ''Voc'' @ [CHR 0xC3, CHR 0xAA] @ '' '' @ [CHR 0xC3, CHR 0xA9] @
     '' Sena, uma Intelig'' @ [CHR 0xC3, CHR 0xAA] @ ''ncia Artificial Avan'' @
     [CHR 0xC3, CHR 0xA7] @ ''ada da AmplaAI.\<newline>'' @ ''    \<newline>'' @
     ''    DIRETRIZES DE SEGURAN'' @ [CHR 0xC3, CHR 0x87] @
     ''A E COMPORTAMENTO:\<newline>'' @ ''    1. Voc'' @ [CHR 0xC3, CHR 0xAA] @
     '' deve priorizar a acessibilidade, clareza e empatia em todas'' @
     '' as respostas.\<newline>'' @ ''    2. FORMATA'' @
     [CHR 0xC3, CHR 0x87, CHR 0xC3, CHR 0x83] @
     ''O: Use Markdown para estruturar suas respostas.\<newline>'' @ ''       - Use t'' @
     [CHR 0xC3, CHR 0xAD] @ ''tulos (##) para organizar t'' @ [CHR 0xC3, CHR 0xB3] @
     ''picos.\<newline>'' @ ''       - Use listas (- ou 1.) para instru'' @
     [CHR 0xC3, CHR 0xA7, CHR 0xC3, CHR 0xB5] @ ''es passo a passo.\<newline>'' @
     ''       - Use **negrito** para conceitos chave.\<newline>'' @ ''    3. C'' @
     [CHR 0xC3, CHR 0x93] @ ''DIGO: Se o usu'' @ [CHR 0xC3, CHR 0xA1] @ ''rio pedir c'' @
     [CHR 0xC3, CHR 0xB3] @ ''digo, forne'' @ [CHR 0xC3, CHR 0xA7] @ ''a SOMENTE c'' @
     [CHR 0xC3, CHR 0xB3] @ ''digo seguro, moderno e bem comentado. \<newline>'' @
     ''       - Envolva o c'' @ [CHR 0xC3, CHR 0xB3] @
     ''digo em blocos markdown triplos (```linguagem ... ```).\<newline>'' @
     ''       - Explique o c'' @ [CHR 0xC3, CHR 0xB3] @ ''digo brevemente ap'' @
     [CHR 0xC3, CHR 0xB3] @ ''s o bloco.\<newline>'' @ ''    4. MULTITAREFA: Voc'' @
     [CHR 0xC3, CHR 0xAA] @ '' '' @ [CHR 0xC3, CHR 0xA9] @
     '' capaz de analisar problemas complexos, sugerir cronogramas '' @
     ''e organizar ideias.\<newline>'' @ ''\<newline>'' @ ''    MODO ATUAL: ''
     @ toUpperCase mode @
     ''\<newline>'' @ ''    ''"

definition getSystemPrompt :: "mode \<Rightarrow> string" where
  "getSystemPrompt mode = basePrompt mode @ modeSpecifics mode"


subsection \<open>\<^verbatim>\<open>MistralService.sendMessage\<close>\<close>

text \<open>The request handed to \<^verbatim>\<open>fetch\<close>: the URL, the bearer token and the JSON body.\<close>

record request =
  url :: string
  bearer :: string
  body_model :: string
  body_messages :: "message list"
  body_tools :: "tool_schema list"
  body_tool_choice :: string
  body_temperature :: rat

text \<open>
  The JSON value of a response body, as far as the code looks at it: \<^verbatim>\<open>null\<close>, or a
  value with its property \<^verbatim>\<open>message\<close> and its property \<^verbatim>\<open>choices\<close> (the list of the
  choices' messages), each \<open>None\<close> when the value has no such property.
\<close>

datatype api_body =
    Null_body
  | Value_body (message_property: "js_value option") (choices_property: "message list option")

record response =
  status :: nat
  statusText :: string
  body :: "api_body json_text"

definition ok :: "response \<Rightarrow> bool" where
  "ok r \<longleftrightarrow> 200 \<le> status r \<and> status r \<le> 299"

text \<open>\<^verbatim>\<open>fetch\<close> rejects (no response at all) or resolves to a response.\<close>

datatype fetch_result = Rejects string | Resolves response

definition API_URL :: string where
  "API_URL = ''https://api.mistral.ai/v1/chat/completions''"

definition validMessage :: "message \<Rightarrow> message" where
  "validMessage msg =
     \<lparr>role = role msg, content = content msg, tool_calls = tool_calls msg,
      tool_call_id = tool_call_id msg, name = name msg\<rparr>"

definition messagesPayload :: "message list \<Rightarrow> mode \<Rightarrow> message list" where
  "messagesPayload history mode =
     \<lparr>role = System, content = getSystemPrompt mode, tool_calls = None,
      tool_call_id = None, name = None\<rparr> # map validMessage history"

definition build_request :: "message list \<Rightarrow> mode \<Rightarrow> string \<Rightarrow> request" where
  "build_request history mode apiKey =
     \<lparr>url = API_URL, bearer = apiKey, body_model = ''mistral-small-latest'',
      body_messages = messagesPayload history mode, body_tools = tools,
      body_tool_choice = ''auto'', body_temperature = 7 / 10\<rparr>"

text \<open>\<^verbatim>\<open>err.message || response.statusText\<close>, inside the template literal.\<close>

fun error_detail :: "api_body \<Rightarrow> string \<Rightarrow> js_error + string" where
  "error_detail Null_body st =
     Inl (TypeError (''Cannot read properties of null (reading '' @ [CHR 0x27] @ ''message'' @ [CHR 0x27] @ '')''))"
| "error_detail (Value_body m cs) st = (if truthy m then template_String m else Inr st)"

text \<open>\<^verbatim>\<open>data.choices[0].message\<close>.\<close>

fun first_choice :: "api_body \<Rightarrow> js_error + message" where
  "first_choice Null_body =
     Inl (TypeError (''Cannot read properties of null (reading '' @ [CHR 0x27] @ ''choices'' @ [CHR 0x27] @ '')''))"
| "first_choice (Value_body m None) =
     Inl (TypeError (''Cannot read properties of undefined (reading '' @ [CHR 0x27] @ ''0'' @ [CHR 0x27] @ '')''))"
| "first_choice (Value_body m (Some [])) =
     Inl (TypeError (''Cannot read properties of undefined (reading '' @ [CHR 0x27] @ ''message'' @ [CHR 0x27] @ '')''))"
| "first_choice (Value_body m (Some (c # cs))) = Inr c"

definition invalid_key_message :: string where
  "invalid_key_message =
     ''Chave de API inv'' @ [CHR 0xC3, CHR 0xA1] @ ''lida. Verifique suas configura'' @
     [CHR 0xC3, CHR 0xA7, CHR 0xC3, CHR 0xB5] @ ''es.''"

text \<open>
  What \<^verbatim>\<open>sendMessage\<close> does with the outcome of \<^verbatim>\<open>fetch\<close>. Its \<^verbatim>\<open>catch\<close> logs the
  error and throws it again, so every error passes through unchanged.
\<close>

definition read_response :: "fetch_result \<Rightarrow> js_error + message" where
  "read_response fr =
     (case fr of
        Rejects m \<Rightarrow> Inl (TypeError m)
      | Resolves r \<Rightarrow>
          if \<not> ok r then
            if status r = 401 then Inl (Error invalid_key_message)
            else
              (case JSON_parse (body r) of
                 Inl e \<Rightarrow> Inl e
               | Inr err \<Rightarrow>
                   (case error_detail err (statusText r) of
                      Inl e \<Rightarrow> Inl e
                    | Inr d \<Rightarrow> Inl (Error (''Erro API Mistral: '' @ d))))
          else
            (case JSON_parse (body r) of
               Inl e \<Rightarrow> Inl e
             | Inr data \<Rightarrow> first_choice data))"

subsection \<open>The world: React state, local storage, remote table\<close>

text \<open>
  A row of the remote table \<^verbatim>\<open>messages\<close>. The column \<^verbatim>\<open>tool_calls\<close> holds
  \<^verbatim>\<open>null\<close>, a string (a JSON text) or an array already decoded by the client;
  \<^verbatim>\<open>created_at\<close> is an ISO-8601 UTC time stamp with milliseconds, taken as the number
  of milliseconds it denotes (the fixed-width text orders as the number does).
\<close>

datatype db_tool_calls = Db_null | Db_string "tool_call list json_text" | Db_array "tool_call list"

record db_row =
  row_role :: role
  row_content :: string
  row_tool_calls :: db_tool_calls
  created_at :: nat

text \<open>
  The calls that leave the component, in the order they are made:
  a call of \<^verbatim>\<open>saveMessageToHistory\<close> with its batch, a \<^verbatim>\<open>fetch\<close> with its request,
  the \<^verbatim>\<open>select\<close> on the remote table, \<^verbatim>\<open>localStorage.getItem\<close> and
  \<^verbatim>\<open>localStorage.removeItem\<close> on the key \<^verbatim>\<open>sena-history\<close>.
\<close>

datatype event =
    Save_call "message list"
  | Fetch_call request
  | Select_call
  | GetItem_call
  | RemoveItem_call

text \<open>
  \<open>sena_history\<close> is the local storage entry \<^verbatim>\<open>sena-history\<close> (\<open>None\<close> when absent).
  \<open>supabase\<close> is \<open>None\<close> for the \<^verbatim>\<open>null\<close> client, otherwise the rows of the remote table
  in the order they were inserted. \<open>clock_reads\<close> counts the evaluations of
  \<^verbatim>\<open>new Date()\<close> so far.
\<close>

record world =
  messages :: "message list"
  isLoading :: bool
  showWelcome :: bool
  conversationMode :: mode
  isSettingsOpen :: bool
  sena_history :: "message list json_text option"
  supabase :: "db_row list option"
  clock_reads :: nat
  trace :: "event list"

text \<open>
  The environment: \<^verbatim>\<open>process.env.API_KEY\<close>, the answer of the completion service to a
  request, the reading of the \<open>k\<close>-th \<^verbatim>\<open>new Date()\<close>, and whether an insert of the
  given rows into the remote table succeeds.
\<close>

record env =
  API_KEY :: "string option"
  fetch :: "request \<Rightarrow> fetch_result"
  new_Date :: "nat \<Rightarrow> nat"
  insert_ok :: "db_row list \<Rightarrow> bool"

definition sendMessage ::
  "env \<Rightarrow> message list \<Rightarrow> mode \<Rightarrow> string \<Rightarrow> world \<Rightarrow> (js_error + message) \<times> world" where
  "sendMessage e history mode apiKey w =
     (let req = build_request history mode apiKey
      in (read_response (fetch e req), w\<lparr>trace := trace w @ [Fetch_call req]\<rparr>))"

subsection \<open>\<^verbatim>\<open>loadChatHistory\<close>\<close>

text \<open>
  What awaiting the query \<^verbatim>\<open>select('*').order('created_at', {ascending: true})\<close> gives:
  an exception, or the pair of \<^verbatim>\<open>error\<close> (set or not) and \<^verbatim>\<open>data\<close>.
\<close>

datatype select_result = Select_throws | Select_returns (sel_error: bool) (sel_data: "db_row list option")

definition format_row :: "db_row \<Rightarrow> js_error + message" where
  "format_row d =
     (case (case row_tool_calls d of
              Db_null \<Rightarrow> Inr None
            | Db_string t \<Rightarrow>
                if t = Empty_text then Inr None
                else (case JSON_parse t of Inl e \<Rightarrow> Inl e | Inr tcs \<Rightarrow> Inr (Some tcs))
            | Db_array tcs \<Rightarrow> Inr (Some tcs)) of
        Inl e \<Rightarrow> Inl e
      | Inr tcs \<Rightarrow>
          Inr \<lparr>role = row_role d, content = row_content d, tool_calls = tcs,
               tool_call_id = None, name = None\<rparr>)"

fun format_rows :: "db_row list \<Rightarrow> js_error + message list" where
  "format_rows [] = Inr []"
| "format_rows (d # ds) =
     (case format_row d of
        Inl e \<Rightarrow> Inl e
      | Inr m \<Rightarrow> (case format_rows ds of Inl e \<Rightarrow> Inl e | Inr ms \<Rightarrow> Inr (m # ms)))"

text \<open>
  The \<^verbatim>\<open>try\<close> block on the remote table: \<open>Some formatted\<close> when it reaches its
  \<^verbatim>\<open>return\<close>, \<open>None\<close> when it falls through or its \<^verbatim>\<open>catch\<close> swallows an exception.
\<close>

definition load_primary :: "select_result \<Rightarrow> message list option" where
  "load_primary q =
     (case q of
        Select_throws \<Rightarrow> None
      | Select_returns err data \<Rightarrow>
          (case data of
             None \<Rightarrow> None
           | Some rows \<Rightarrow>
               if \<not> err \<and> length rows > 0 then
                 (case format_rows rows of Inl e \<Rightarrow> None | Inr formatted \<Rightarrow> Some formatted)
               else None))"

definition load_local :: "world \<Rightarrow> world" where
  "load_local w =
     (let w1 = w\<lparr>trace := trace w @ [GetItem_call]\<rparr>
      in (case sena_history w of
            None \<Rightarrow> w1
          | Some saved \<Rightarrow>
              if saved = Empty_text then w1
              else (case JSON_parse saved of
                      Inl e \<Rightarrow> w1
                    | Inr ms \<Rightarrow> w1\<lparr>messages := ms, showWelcome := False\<rparr>)))"

definition loadChatHistory :: "select_result \<Rightarrow> world \<Rightarrow> world" where
  "loadChatHistory q w =
     (case supabase w of
        None \<Rightarrow> load_local w
      | Some table \<Rightarrow>
          (let w1 = w\<lparr>trace := trace w @ [Select_call]\<rparr>
           in (case load_primary q of
                 Some formatted \<Rightarrow> w1\<lparr>messages := formatted, showWelcome := False\<rparr>
               | None \<Rightarrow> load_local w1)))"

text \<open>
  \<^verbatim>\<open>order('created_at', {ascending: true})\<close>: the rows returned are the rows of the
  table, in some order in which \<^verbatim>\<open>created_at\<close> does not decrease.
\<close>

definition ordered_by_created_at :: "db_row list \<Rightarrow> db_row list \<Rightarrow> bool" where
  "ordered_by_created_at table rows \<longleftrightarrow>
     mset rows = mset table \<and> sorted (map created_at rows)"

subsection \<open>\<^verbatim>\<open>saveMessageToHistory\<close>\<close>

text \<open>
  The records of a batch; each evaluates \<^verbatim>\<open>new Date()\<close> once, the \<open>k\<close>-th reading
  being the first.
\<close>

fun records :: "(nat \<Rightarrow> nat) \<Rightarrow> nat \<Rightarrow> message list \<Rightarrow> db_row list" where
  "records clock k [] = []"
| "records clock k (m # ms) =
     \<lparr>row_role = role m, row_content = content m,
      row_tool_calls =
        (case tool_calls m of None \<Rightarrow> Db_null | Some tcs \<Rightarrow> Db_string (JSON_stringify tcs)),
      created_at = clock k\<rparr> # records clock (Suc k) ms"

definition saveMessageToHistory :: "env \<Rightarrow> message list \<Rightarrow> world \<Rightarrow> world" where
  "saveMessageToHistory e newMessages w =
     (let updated = messages w @ newMessages;
          w1 = w\<lparr>messages := updated, sena_history := Some (JSON_stringify updated),
                 trace := trace w @ [Save_call newMessages]\<rparr>;
          w2 = (case supabase w1 of
                  None \<Rightarrow> w1
                | Some table \<Rightarrow>
                    (let rs = records (new_Date e) (clock_reads w1) newMessages;
                         w' = w1\<lparr>clock_reads := clock_reads w1 + length newMessages\<rparr>
                     in if insert_ok e rs then w'\<lparr>supabase := Some (table @ rs)\<rparr> else w'))
      in w2\<lparr>showWelcome := False\<rparr>)"


subsection \<open>\<^verbatim>\<open>handleSendMessage\<close>\<close>

definition unknown_tool_result :: string where
  "unknown_tool_result = ''Ferramenta desconhecida.''"

text \<open>
  The body of the loop after \<^verbatim>\<open>JSON.parse\<close>: the dispatch on \<^verbatim>\<open>functionName\<close> that
  computes \<^verbatim>\<open>toolResult\<close>. In the image branch the prompt is converted to a string
  and encoded for the URL first, then written into the result text; either step can raise.
\<close>

definition execute_tool :: "string \<Rightarrow> js_value \<Rightarrow> js_error + string" where
  "execute_tool functionName functionArgs =
     (if functionName = ''generate_image'' then
        (case get_property functionArgs ''prompt'' of
           Inl e \<Rightarrow> Inl e
         | Inr prompt \<Rightarrow>
             (case template_String prompt of
                Inl e \<Rightarrow> Inl e
              | Inr text \<Rightarrow>
                  (case encodeURIComponent text of
                     Inl e \<Rightarrow> Inl e
                   | Inr encoded \<Rightarrow>
                       (let imageUrl =
                              ''https://image.pollinations.ai/prompt/'' @ encoded @
                              ''?width=1024&height=1024&nologo=true''
                        in Inr (''Imagem gerada com sucesso: !['' @ text @ ''](''
                                @ imageUrl @ '')'')))))
      else if functionName = ''web_search'' then
        (case get_property functionArgs ''query'' of
           Inl e \<Rightarrow> Inl e
         | Inr query \<Rightarrow>
             (case template_String query of
                Inl e \<Rightarrow> Inl e
              | Inr text \<Rightarrow>
                  Inr (''Resultado da busca para '' @ [CHR 0x22] @ text @
                       [CHR 0x22] @ '': [Informa'' @ [CHR 0xC3, CHR 0xA7, CHR 0xC3, CHR 0xA3] @
                       ''o recuperada da base de conhecimento atualizada do modelo si'' @
                       ''mulando acesso web]. Considere responder com fatos recentes '' @
                       ''sobre esse t'' @ [CHR 0xC3, CHR 0xB3] @ ''pico.'')))
      else Inr unknown_tool_result)"

definition toolMessage :: "tool_call \<Rightarrow> string \<Rightarrow> message" where
  "toolMessage toolCall toolResult =
     \<lparr>role = Tool, content = toolResult, tool_calls = None,
      tool_call_id = Some (tc_id toolCall), name = Some (fn_name toolCall)\<rparr>"

text \<open>One iteration of the loop: parse the arguments, then execute.\<close>

definition tool_result :: "tool_call \<Rightarrow> js_error + string" where
  "tool_result toolCall =
     (case JSON_parse (fn_arguments toolCall) of
        Inl e \<Rightarrow> Inl e
      | Inr functionArgs \<Rightarrow> execute_tool (fn_name toolCall) functionArgs)"

text \<open>
  The loop over \<^verbatim>\<open>assistantResponse.tool_calls\<close>, on the pair
  (\<^verbatim>\<open>toolUseHistory\<close>, \<^verbatim>\<open>newMessagesToSave\<close>); the first exception ends it.
\<close>

fun tool_loop ::
  "tool_call list \<Rightarrow> message list \<times> message list \<Rightarrow> js_error + message list \<times> message list" where
  "tool_loop [] acc = Inr acc"
| "tool_loop (toolCall # rest) (toolUseHistory, newMessagesToSave) =
     (case tool_result toolCall of
        Inl e \<Rightarrow> Inl e
      | Inr toolResult \<Rightarrow>
          tool_loop rest
            (toolUseHistory @ [toolMessage toolCall toolResult],
             newMessagesToSave @ [toolMessage toolCall toolResult]))"

definition missing_key_message :: string where
  "missing_key_message = ''Chave API Mistral n'' @ [CHR 0xC3, CHR 0xA3] @ ''o encontrada.''"

text \<open>\<^verbatim>\<open>assistantResponse.tool_calls && assistantResponse.tool_calls.length > 0\<close>.\<close>

definition wants_tools :: "message \<Rightarrow> bool" where
  "wants_tools m = (case tool_calls m of None \<Rightarrow> False | Some tcs \<Rightarrow> length tcs > 0)"

text \<open>
  The \<^verbatim>\<open>try\<close> block. \<open>msgs\<close> is the handler's \<^verbatim>\<open>messages\<close>, the log as it was when the
  handler was called. The result is \<open>Inl\<close> of the exception that left the block, or
  \<open>Inr ()\<close> when the block ran to its end.
\<close>

definition try_block ::
  "env \<Rightarrow> message list \<Rightarrow> message \<Rightarrow> mode \<Rightarrow> world \<Rightarrow> (js_error + unit) \<times> world" where
  "try_block e msgs userMsg md w =
     (case API_KEY e of
        None \<Rightarrow> (Inl (Error missing_key_message), w)
      | Some apiKey \<Rightarrow>
          if apiKey = [] then (Inl (Error missing_key_message), w)
          else
            (case sendMessage e (msgs @ [userMsg]) md apiKey w of
               (Inl err, w1) \<Rightarrow> (Inl err, w1)
             | (Inr assistantResponse, w1) \<Rightarrow>
                 if wants_tools assistantResponse then
                   (case tool_loop (the (tool_calls assistantResponse))
                           (msgs @ [userMsg, assistantResponse], [assistantResponse]) of
                      Inl err \<Rightarrow> (Inl err, w1)
                    | Inr (toolUseHistory, newMessagesToSave) \<Rightarrow>
                        (case sendMessage e toolUseHistory md apiKey w1 of
                           (Inl err, w2) \<Rightarrow> (Inl err, w2)
                         | (Inr finalResponse, w2) \<Rightarrow>
                             (Inr (),
                              saveMessageToHistory e (newMessagesToSave @ [finalResponse]) w2)))
                 else (Inr (), saveMessageToHistory e [assistantResponse] w1)))"

definition warning_marker :: string where
  "warning_marker = [CHR 0xE2, CHR 0x9A, CHR 0xA0, CHR 0xEF, CHR 0xB8, CHR 0x8F]"

definition error_reply :: "js_error \<Rightarrow> message" where
  "error_reply err =
     \<lparr>role = Assistant,
      content = warning_marker @ '' Desculpe, ocorreu um erro: '' @ error_message err,
      tool_calls = None, tool_call_id = None, name = None\<rparr>"

definition userMessage :: "string \<Rightarrow> message" where
  "userMessage userInput =
     \<lparr>role = User, content = userInput, tool_calls = None, tool_call_id = None, name = None\<rparr>"

definition handleSendMessage :: "env \<Rightarrow> string \<Rightarrow> world \<Rightarrow> world" where
  "handleSendMessage e userInput w =
     (if blank userInput \<or> isLoading w then w
      else
        (let userMsg = userMessage userInput;
             w1 = (saveMessageToHistory e [userMsg] w)\<lparr>isLoading := True\<rparr>;
             w3 = (case try_block e (messages w) userMsg (conversationMode w) w1 of
                     (Inl err, w2) \<Rightarrow> saveMessageToHistory e [error_reply err] w2
                   | (Inr u, w2) \<Rightarrow> w2)
         in w3\<lparr>isLoading := False\<rparr>))"

text \<open>
  A pass ends in \<open>Done\<close> when the \<^verbatim>\<open>try\<close> block runs to its end and in \<open>Failed\<close> when
  the \<^verbatim>\<open>catch\<close> takes over; a call that returns at the guard is \<open>Rejected\<close>.
\<close>

datatype outcome = Rejected | Done | Failed js_error

definition pass_outcome :: "env \<Rightarrow> string \<Rightarrow> world \<Rightarrow> outcome" where
  "pass_outcome e userInput w =
     (if blank userInput \<or> isLoading w then Rejected
      else
        (let userMsg = userMessage userInput;
             w1 = (saveMessageToHistory e [userMsg] w)\<lparr>isLoading := True\<rparr>
         in (case fst (try_block e (messages w) userMsg (conversationMode w) w1) of
               Inl err \<Rightarrow> Failed err
             | Inr u \<Rightarrow> Done)))"

subsection \<open>\<^verbatim>\<open>handleClearChat\<close>\<close>

text \<open>\<open>confirmed\<close> is the answer of the \<^verbatim>\<open>confirm\<close> dialog.\<close>

definition handleClearChat :: "bool \<Rightarrow> world \<Rightarrow> world" where
  "handleClearChat confirmed w =
     (if confirmed then
        w\<lparr>messages := [], sena_history := None, trace := trace w @ [RemoveItem_call],
          showWelcome := True, isSettingsOpen := False\<rparr>
      else w)"

subsection \<open>Reading the trace\<close>

fun saves :: "event list \<Rightarrow> message list list" where
  "saves [] = []"
| "saves (Save_call b # es) = b # saves es"
| "saves (ev # es) = saves es"

fun fetches :: "event list \<Rightarrow> request list" where
  "fetches [] = []"
| "fetches (Fetch_call r # es) = r # fetches es"
| "fetches (ev # es) = fetches es"


subsection \<open>Auxiliary definitions\<close>

text \<open>The tool messages of a list of calls in order, or the first exception.\<close>

fun tool_messages :: "tool_call list \<Rightarrow> js_error + message list" where
  "tool_messages [] = Inr []"
| "tool_messages (toolCall # rest) =
     (case tool_result toolCall of
        Inl e \<Rightarrow> Inl e
      | Inr toolResult \<Rightarrow>
          (case tool_messages rest of
             Inl e \<Rightarrow> Inl e
           | Inr ms \<Rightarrow> Inr (toolMessage toolCall toolResult # ms)))"


definition declared :: "string set" where
  "declared = {''generate_image'', ''web_search''}"

text \<open>
  A pass that took the failure path with the exception \<open>err\<close> after sending the requests
  \<open>rs\<close>: the \<^verbatim>\<open>catch\<close> ran, the saves of the pass are the user message and then the
  single error reply, the log and the local store end with these two messages, the
  requests sent are exactly \<open>rs\<close>, and the busy flag is down again.
\<close>

definition failed_pass :: "env \<Rightarrow> string \<Rightarrow> world \<Rightarrow> js_error \<Rightarrow> request list \<Rightarrow> bool" where
  "failed_pass e userInput w err rs \<longleftrightarrow>
     pass_outcome e userInput w = Failed err \<and>
     saves (trace (handleSendMessage e userInput w)) =
       saves (trace w) @ [[userMessage userInput], [error_reply err]] \<and>
     messages (handleSendMessage e userInput w) =
       messages w @ [userMessage userInput, error_reply err] \<and>
     sena_history (handleSendMessage e userInput w) =
       Some (JSON_stringify (messages w @ [userMessage userInput, error_reply err])) \<and>
     fetches (trace (handleSendMessage e userInput w)) = fetches (trace w) @ rs \<and>
     \<not> isLoading (handleSendMessage e userInput w)"

subsection \<open>Sample worlds and scripted services\<close>

definition idle_world :: world where
  "idle_world =
     \<lparr>messages = [], isLoading = False, showWelcome = False, conversationMode = Explicativo,
      isSettingsOpen = False, sena_history = None, supabase = Some [], clock_reads = 0,
      trace = []\<rparr>"

definition busy_world :: world where
  "busy_world = idle_world\<lparr>isLoading := True\<rparr>"

definition plain :: "role \<Rightarrow> string \<Rightarrow> message" where
  "plain r c = \<lparr>role = r, content = c, tool_calls = None, tool_call_id = None, name = None\<rparr>"

definition asking :: "tool_call list \<Rightarrow> message" where
  "asking tcs =
     \<lparr>role = Assistant, content = [], tool_calls = Some tcs, tool_call_id = None, name = None\<rparr>"

definition completes :: "message \<Rightarrow> fetch_result" where
  "completes m =
     Resolves \<lparr>status = 200, statusText = ''OK'', body = Text_of (Value_body None (Some [m]))\<rparr>"

definition unauthorized :: fetch_result where
  "unauthorized =
     Resolves \<lparr>status = 401, statusText = ''Unauthorized'',
               body = Text_of (Value_body (Some (JStr ''Unauthorized'')) None)\<rparr>"

text \<open>
  A service that gives \<open>first\<close> to a request of two messages (the system prompt and one
  user message) and \<open>second\<close> to any other request.
\<close>

definition scripted :: "fetch_result \<Rightarrow> fetch_result \<Rightarrow> request \<Rightarrow> fetch_result" where
  "scripted first second req = (if length (body_messages req) = 2 then first else second)"

definition sample_env :: "(request \<Rightarrow> fetch_result) \<Rightarrow> env" where
  "sample_env service =
     \<lparr>API_KEY = Some ''key'', fetch = service, new_Date = (\<lambda>k. 1700000000000),
      insert_ok = (\<lambda>rs. True)\<rparr>"

definition image_call :: tool_call where
  "image_call =
     \<lparr>tc_id = ''call_1'', fn_name = ''generate_image'',
      fn_arguments = Text_of (JObj [(''prompt'', JStr ''a cat'')])\<rparr>"

definition null_call :: tool_call where
  "null_call = \<lparr>tc_id = ''call_1'', fn_name = ''generate_image'', fn_arguments = Text_of JNull\<rparr>"

definition unknown_call :: tool_call where
  "unknown_call =
     \<lparr>tc_id = ''call_1'', fn_name = ''translate'',
      fn_arguments = Text_of (JObj [(''text'', JStr ''oi'')])\<rparr>"

definition broken_call :: tool_call where
  "broken_call =
     \<lparr>tc_id = ''call_1'', fn_name = ''translate'',
      fn_arguments = Malformed ''Unterminated string in JSON at position 9''\<rparr>"

definition stale_history :: "message list" where
  "stale_history = [plain System ''Seja breve.'', plain User ''oi'']"

definition bad_gateway :: response where
  "bad_gateway =
     \<lparr>status = 502, statusText = ''Bad Gateway'',
      body = Malformed (''Unexpected token '' @ [CHR 0x27] @ ''<'' @ [CHR 0x27] @ '', '' @
               [CHR 0x22] @ ''<html>'' @ [CHR 0x22] @ ''... is not valid JSON'')\<rparr>"

definition tool_pass_service :: "request \<Rightarrow> fetch_result" where
  "tool_pass_service =
     scripted (completes (asking [image_call])) (completes (plain Assistant ''Aqui esta.''))"




text \<open>
  Two payloads that parse and are not \<^verbatim>\<open>null\<close>: a prompt that is an object with an own
  \<^verbatim>\<open>toString\<close>, and a prompt that is the lone surrogate \<^verbatim>\<open>\ud800\<close>.
\<close>

definition tostring_call :: tool_call where
  "tostring_call =
     \<lparr>tc_id = ''call_1'', fn_name = ''generate_image'',
      fn_arguments = Text_of (JObj [(''prompt'', JObj [(''toString'', JNum ''1'')])])\<rparr>"

definition surrogate_call :: tool_call where
  "surrogate_call =
     \<lparr>tc_id = ''call_1'', fn_name = ''generate_image'',
      fn_arguments = Text_of (JObj [(''prompt'', JStr [CHR 0xED, CHR 0xA0, CHR 0x80])])\<rparr>"

definition tostring_service :: "request \<Rightarrow> fetch_result" where
  "tostring_service =
     scripted (completes (asking [tostring_call])) (completes (plain Assistant ''Aqui esta.''))"

definition surrogate_service :: "request \<Rightarrow> fetch_result" where
  "surrogate_service =
     scripted (completes (asking [surrogate_call])) (completes (plain Assistant ''Aqui esta.''))"

definition broken_service :: "request \<Rightarrow> fetch_result" where
  "broken_service = scripted (completes (asking [broken_call])) unauthorized"

definition null_service :: "request \<Rightarrow> fetch_result" where
  "null_service =
     scripted (completes (asking [null_call])) (completes (plain Assistant ''Aqui esta.''))"

definition second_fails_service :: "request \<Rightarrow> fetch_result" where
  "second_fails_service = scripted (completes (asking [image_call])) unauthorized"

definition unknown_service :: "request \<Rightarrow> fetch_result" where
  "unknown_service =
     scripted (completes (asking [unknown_call]))
       (completes (plain Assistant ''Nao sei traduzir.''))"

text \<open>
  A clock of millisecond resolution during one tool pass: the first reading when the user
  message is saved, and 850 ms later one and the same reading for every row of the batch.
\<close>

definition coarse_clock :: "nat \<Rightarrow> nat" where
  "coarse_clock k = (if k = 0 then 1700000000000 else 1700000000850)"

definition tie_env :: env where
  "tie_env = (sample_env unknown_service)\<lparr>new_Date := coarse_clock\<rparr>"

definition tie_world :: world where
  "tie_world = handleSendMessage tie_env ''traduza oi'' idle_world"

definition tie_rows :: "db_row list" where
  "tie_rows = the (supabase tie_world)"

section \<open>Properties\<close>

subsection \<open>Facts about the operations\<close>

lemma saves_append: "saves (xs @ ys) = saves xs @ saves ys"
  by (induction xs rule: saves.induct) simp_all

lemma fetches_append: "fetches (xs @ ys) = fetches xs @ fetches ys"
  by (induction xs rule: fetches.induct) simp_all

lemma messages_save: "messages (saveMessageToHistory e b w) = messages w @ b"
  by (simp add: saveMessageToHistory_def Let_def split: option.split)

lemma sena_history_save:
  "sena_history (saveMessageToHistory e b w) = Some (JSON_stringify (messages w @ b))"
  by (simp add: saveMessageToHistory_def Let_def split: option.split)

lemma trace_save: "trace (saveMessageToHistory e b w) = trace w @ [Save_call b]"
  by (simp add: saveMessageToHistory_def Let_def split: option.split)

lemma isLoading_save: "isLoading (saveMessageToHistory e b w) = isLoading w"
  by (simp add: saveMessageToHistory_def Let_def split: option.split)

lemma conversationMode_save: "conversationMode (saveMessageToHistory e b w) = conversationMode w"
  by (simp add: saveMessageToHistory_def Let_def split: option.split)

lemma sendMessage_eq:
  "sendMessage e h md k w =
     (read_response (fetch e (build_request h md k)),
      w\<lparr>trace := trace w @ [Fetch_call (build_request h md k)]\<rparr>)"
  by (simp add: sendMessage_def Let_def)

lemma tool_loop_eq:
  "tool_loop tcs (h, n) =
     (case tool_messages tcs of Inl e \<Rightarrow> Inl e | Inr ms \<Rightarrow> Inr (h @ ms, n @ ms))"
  by (induction tcs arbitrary: h n) (simp_all split: sum.split)

lemma tool_messages_ok:
  "(\<And>tc. tc \<in> set tcs \<Longrightarrow> \<exists>r. tool_result tc = Inr r) \<Longrightarrow>
   tool_messages tcs = Inr (map (\<lambda>tc. toolMessage tc (projr (tool_result tc))) tcs)"
proof (induction tcs)
  case Nil
  show ?case by simp
next
  case (Cons a tcs)
  obtain r where r: "tool_result a = Inr r" using Cons.prems[of a] by auto
  have "tool_messages tcs = Inr (map (\<lambda>tc. toolMessage tc (projr (tool_result tc))) tcs)"
    using Cons.IH Cons.prems by simp
  with r show ?case by simp
qed

lemma build_request_length:
  "length (body_messages (build_request h md k)) = Suc (length h)"
  by (simp add: build_request_def messagesPayload_def)

lemma build_request_neq:
  "length h \<noteq> length h' \<Longrightarrow> build_request h md k \<noteq> build_request h' md' k'"
  by (metis build_request_length nat.inject)

lemma try_block_failed:
  assumes "fst (try_block e msgs u md w) = Inl err"
  shows "messages (snd (try_block e msgs u md w)) = messages w"
    and "sena_history (snd (try_block e msgs u md w)) = sena_history w"
    and "saves (trace (snd (try_block e msgs u md w))) = saves (trace w)"
    and "\<exists>rs. fetches (trace (snd (try_block e msgs u md w))) = fetches (trace w) @ rs \<and>
           length rs \<le> 2 \<and> distinct rs"
  using assms unfolding try_block_def sendMessage_eq tool_loop_eq
  by (auto simp: saves_append fetches_append build_request_neq
           split: option.splits sum.splits prod.splits if_splits)



lemma tool_messages_failed:
  "(\<And>t. t \<in> set pre \<Longrightarrow> \<exists>r. tool_result t = Inr r) \<Longrightarrow> tool_result tc = Inl err \<Longrightarrow>
   tool_messages (pre @ tc # post) = Inl err"
proof (induction pre)
  case Nil
  then show ?case by simp
next
  case (Cons a pre)
  obtain r where r: "tool_result a = Inr r" using Cons.prems(1)[of a] by auto
  have "tool_messages (pre @ tc # post) = Inl err"
    using Cons.IH Cons.prems by simp
  with r show ?case by simp
qed

lemma handleSendMessage_accepted:
  assumes "\<not> blank userInput" and "\<not> isLoading w"
  shows "handleSendMessage e userInput w =
           (case try_block e (messages w) (userMessage userInput) (conversationMode w)
                   ((saveMessageToHistory e [userMessage userInput] w)\<lparr>isLoading := True\<rparr>) of
              (Inl err, w2) \<Rightarrow> saveMessageToHistory e [error_reply err] w2
            | (Inr x, w2) \<Rightarrow> w2)\<lparr>isLoading := False\<rparr>"
  using assms by (simp add: handleSendMessage_def Let_def)

lemma pass_outcome_accepted:
  assumes "\<not> blank userInput" and "\<not> isLoading w"
  shows "pass_outcome e userInput w =
           (case fst (try_block e (messages w) (userMessage userInput) (conversationMode w)
                   ((saveMessageToHistory e [userMessage userInput] w)\<lparr>isLoading := True\<rparr>)) of
              Inl err \<Rightarrow> Failed err
            | Inr x \<Rightarrow> Done)"
  using assms by (simp add: pass_outcome_def Let_def)

lemma pass_outcome_Failed_accepted:
  "pass_outcome e userInput w = Failed err \<Longrightarrow> \<not> blank userInput \<and> \<not> isLoading w"
  by (auto simp: pass_outcome_def split: if_splits)

text \<open>The effects of a pass whose \<^verbatim>\<open>try\<close> block is left by the exception \<open>err\<close>.\<close>

lemma failed_pass_effects:
  assumes "pass_outcome e userInput w = Failed err"
  shows "saves (trace (handleSendMessage e userInput w)) =
           saves (trace w) @ [[userMessage userInput], [error_reply err]]"
    and "messages (handleSendMessage e userInput w) =
           messages w @ [userMessage userInput, error_reply err]"
    and "sena_history (handleSendMessage e userInput w) =
           Some (JSON_stringify (messages w @ [userMessage userInput, error_reply err]))"
    and "\<exists>rs. fetches (trace (handleSendMessage e userInput w)) = fetches (trace w) @ rs \<and>
           length rs \<le> 2 \<and> distinct rs"
proof -
  define u where "u = userMessage userInput"
  define w1 where "w1 = (saveMessageToHistory e [u] w)\<lparr>isLoading := True\<rparr>"
  define tb where "tb = try_block e (messages w) u (conversationMode w) w1"
  have acc: "\<not> blank userInput" "\<not> isLoading w"
    using pass_outcome_Failed_accepted[OF assms] by simp_all
  obtain r w2 where tb: "tb = (r, w2)" by (cases tb)
  have r: "r = Inl err"
    using assms tb unfolding pass_outcome_accepted[OF acc] u_def[symmetric] w1_def[symmetric]
      tb_def[symmetric]
    by (cases r) simp_all
  have fst_tb: "fst (try_block e (messages w) u (conversationMode w) w1) = Inl err"
    and snd_tb: "snd (try_block e (messages w) u (conversationMode w) w1) = w2"
    using tb r unfolding tb_def by simp_all
  have m2: "messages w2 = messages w @ [u]"
    and h2: "saves (trace w2) = saves (trace w) @ [[u]]"
    using try_block_failed(1,3)[OF fst_tb] snd_tb
    by (simp_all add: w1_def messages_save trace_save saves_append)
  obtain rs where rs: "fetches (trace w2) = fetches (trace w) @ rs" "length rs \<le> 2" "distinct rs"
    using try_block_failed(4)[OF fst_tb] snd_tb
    by (auto simp: w1_def trace_save fetches_append)
  have eq: "handleSendMessage e userInput w =
              (saveMessageToHistory e [error_reply err] w2)\<lparr>isLoading := False\<rparr>"
    using tb r unfolding handleSendMessage_accepted[OF acc] u_def[symmetric] w1_def[symmetric]
      tb_def[symmetric] by simp
  show "saves (trace (handleSendMessage e userInput w)) =
           saves (trace w) @ [[userMessage userInput], [error_reply err]]"
    by (simp add: eq trace_save saves_append h2 u_def)
  show "messages (handleSendMessage e userInput w) =
           messages w @ [userMessage userInput, error_reply err]"
    by (simp add: eq messages_save m2 u_def)
  show "sena_history (handleSendMessage e userInput w) =
           Some (JSON_stringify (messages w @ [userMessage userInput, error_reply err]))"
    by (simp add: eq sena_history_save m2 u_def)
  show "\<exists>rs. fetches (trace (handleSendMessage e userInput w)) = fetches (trace w) @ rs \<and>
           length rs \<le> 2 \<and> distinct rs"
    using rs by (simp add: eq trace_save fetches_append)
qed

text \<open>A payload that does not parse ends the pass before the second request.\<close>

lemma malformed_payload_aborts:
  assumes "\<not> blank userInput" and "\<not> isLoading w"
    and "API_KEY e = Some apiKey" and "apiKey \<noteq> []"
    and "read_response (fetch e (build_request (messages w @ [userMessage userInput])
           (conversationMode w) apiKey)) = Inr a"
    and "tool_calls a = Some (pre @ tc # post)"
    and "\<And>t. t \<in> set pre \<Longrightarrow> \<exists>r. tool_result t = Inr r"
    and "JSON_parse (fn_arguments tc) = Inl perr"
  shows "pass_outcome e userInput w = Failed perr"
    and "fetches (trace (handleSendMessage e userInput w)) =
           fetches (trace w) @ [build_request (messages w @ [userMessage userInput])
           (conversationMode w) apiKey]"
proof -
  have tr: "tool_result tc = Inl perr" using assms(8) by (simp add: tool_result_def)
  have tm: "tool_messages (pre @ tc # post) = Inl perr"
    using tool_messages_failed[OF assms(7) tr] by simp
  show "pass_outcome e userInput w = Failed perr"
    unfolding pass_outcome_accepted[OF assms(1,2)]
    using assms(3-6) tm
    by (simp add: try_block_def sendMessage_eq tool_loop_eq wants_tools_def)
  show "fetches (trace (handleSendMessage e userInput w)) =
           fetches (trace w) @ [build_request (messages w @ [userMessage userInput])
           (conversationMode w) apiKey]"
    unfolding handleSendMessage_accepted[OF assms(1,2)]
    using assms(3-6) tm
    by (simp add: try_block_def sendMessage_eq tool_loop_eq wants_tools_def
          trace_save fetches_append)
qed

text \<open>Evaluation of a pass on a sample world unfolds these definitions.\<close>

lemmas pass_defs =
  handleSendMessage_def pass_outcome_def try_block_def sendMessage_def saveMessageToHistory_def
  build_request_def messagesPayload_def read_response_def ok_def JSON_parse_def
  JSON_stringify_def wants_tools_def tool_result_def execute_tool_def toolMessage_def
  userMessage_def error_reply_def sample_env_def scripted_def completes_def unauthorized_def
  asking_def plain_def idle_world_def white1_def white2_def white3_def template_String_def

lemma declared_tools: "declared = set (map schema_name tools)"
  by (auto simp: declared_def tools_def)

lemma validMessage_id: "validMessage (m::message) = m"
  by (simp add: validMessage_def)

lemma map_validMessage: "map validMessage (h::message list) = h"
  by (induction h) (simp_all add: validMessage_id)

text \<open>The outgoing list is the fresh system message followed by the whole history.\<close>

lemma body_messages_build_request:
  "body_messages (build_request h md k) = plain System (getSystemPrompt md) # h"
  by (simp add: build_request_def messagesPayload_def map_validMessage plain_def)

lemma body_tools_build_request: "body_tools (build_request h md k) = tools"
  by (simp add: build_request_def)

text \<open>The three mappings of \<open>read_response\<close> on a response whose body is a JSON value.\<close>

lemma read_unauthorized:
  "status r = 401 \<Longrightarrow> read_response (Resolves r) = Inl (Error invalid_key_message)"
  by (simp add: read_response_def ok_def)

lemma read_failure_json:
  "\<not> ok r \<Longrightarrow> status r \<noteq> 401 \<Longrightarrow> body r = Text_of (Value_body m cs) \<Longrightarrow>
   (if truthy m then template_String m else Inr (statusText r)) = Inr d \<Longrightarrow>
   read_response (Resolves r) = Inl (Error (''Erro API Mistral: '' @ d))"
  by (simp add: read_response_def JSON_parse_def)

lemma read_success:
  "ok r \<Longrightarrow> body r = Text_of (Value_body m (Some (c # cs))) \<Longrightarrow>
   read_response (Resolves r) = Inr c"
  by (simp add: read_response_def JSON_parse_def)

text \<open>The records of a batch: the fields of each message, and one clock reading each.\<close>

lemma records_shape:
  "map (\<lambda>d. (row_role d, row_content d, row_tool_calls d)) (records clock k ms) =
   map (\<lambda>m. (role m, content m,
          case tool_calls m of None \<Rightarrow> Db_null | Some tcs \<Rightarrow> Db_string (JSON_stringify tcs))) ms"
  by (induction ms arbitrary: k) simp_all

lemma records_created_at:
  "map created_at (records clock k ms) = map clock [k ..< k + length ms]"
  by (induction ms arbitrary: k) (simp_all add: upt_rec)



lemma execute_unknown:
  "functionName \<notin> declared \<Longrightarrow> execute_tool functionName functionArgs = Inr unknown_tool_result"
  by (simp add: execute_tool_def declared_def)

text \<open>When the two declared tools yield a result, and which.\<close>

lemma tool_result_generate_image:
  assumes "fn_name tc = ''generate_image''" and "fn_arguments tc = Text_of v"
    and "get_property v ''prompt'' = Inr p" and "template_String p = Inr s"
    and "\<not> lone_surrogate s"
  shows "tool_result tc =
           Inr (''Imagem gerada com sucesso: !['' @ s @ ''](''
                @ ''https://image.pollinations.ai/prompt/'' @ concat (map percent_byte s) @
                ''?width=1024&height=1024&nologo=true'' @ '')'')"
  using assms
  by (simp add: tool_result_def JSON_parse_def execute_tool_def encodeURIComponent_def Let_def)

lemma tool_result_web_search:
  assumes "fn_name tc = ''web_search''" and "fn_arguments tc = Text_of v"
    and "get_property v ''query'' = Inr p" and "template_String p = Inr s"
  shows "\<exists>r. tool_result tc = Inr r"
  using assms by (simp add: tool_result_def JSON_parse_def execute_tool_def)

lemma tool_result_raises_nothing:
  assumes "fn_arguments tc = Text_of v"
    and "fn_name tc = ''generate_image'' \<longrightarrow>
           (\<exists>p s. get_property v ''prompt'' = Inr p \<and> template_String p = Inr s \<and>
                  \<not> lone_surrogate s)"
    and "fn_name tc = ''web_search'' \<longrightarrow>
           (\<exists>p s. get_property v ''query'' = Inr p \<and> template_String p = Inr s)"
  shows "\<exists>r. tool_result tc = Inr r"
proof -
  consider "fn_name tc = ''generate_image''" | "fn_name tc = ''web_search''"
    | "fn_name tc \<notin> declared"
    by (auto simp: declared_def)
  then show ?thesis
  proof cases
    case 1
    with assms(2) obtain p s where "get_property v ''prompt'' = Inr p"
      "template_String p = Inr s" "\<not> lone_surrogate s" by blast
    then show ?thesis using tool_result_generate_image[OF 1 assms(1)] by blast
  next
    case 2
    with assms(3) obtain p s where "get_property v ''query'' = Inr p"
      "template_String p = Inr s" by blast
    then show ?thesis using tool_result_web_search[OF 2 assms(1)] by blast
  next
    case 3
    then show ?thesis
      using assms(1) by (simp add: tool_result_def JSON_parse_def execute_unknown)
  qed
qed

text \<open>The world at the end of a pass whose tool calls and second request all succeed.\<close>

lemma tool_pass_world:
  assumes "\<not> blank userInput" and "\<not> isLoading w"
    and "API_KEY e = Some apiKey" and "apiKey \<noteq> []"
    and "read_response (fetch e (build_request (messages w @ [userMessage userInput])
           (conversationMode w) apiKey)) = Inr a"
    and "tool_calls a = Some tcs" and "tcs \<noteq> []"
    and "tool_messages tcs = Inr ms"
    and "read_response (fetch e (build_request (messages w @ [userMessage userInput, a] @ ms)
           (conversationMode w) apiKey)) = Inr final"
  shows "pass_outcome e userInput w = Done"
    and "saves (trace (handleSendMessage e userInput w)) =
           saves (trace w) @ [[userMessage userInput], a # ms @ [final]]"
    and "messages (handleSendMessage e userInput w) =
           messages w @ userMessage userInput # a # ms @ [final]"
    and "sena_history (handleSendMessage e userInput w) =
           Some (JSON_stringify (messages w @ userMessage userInput # a # ms @ [final]))"
    and "fetches (trace (handleSendMessage e userInput w)) =
           fetches (trace w) @
             [build_request (messages w @ [userMessage userInput]) (conversationMode w) apiKey,
              build_request (messages w @ [userMessage userInput, a] @ ms)
                (conversationMode w) apiKey]"
proof -
  show "pass_outcome e userInput w = Done"
    unfolding pass_outcome_accepted[OF assms(1,2)]
    using assms(3-9)
    by (simp add: try_block_def sendMessage_eq tool_loop_eq wants_tools_def)
  have eq: "try_block e (messages w) (userMessage userInput) (conversationMode w)
             ((saveMessageToHistory e [userMessage userInput] w)\<lparr>isLoading := True\<rparr>) =
           (Inr (), saveMessageToHistory e (a # ms @ [final])
             ((saveMessageToHistory e [userMessage userInput] w)
                \<lparr>isLoading := True,
                 trace := trace w @ [Save_call [userMessage userInput],
                   Fetch_call (build_request (messages w @ [userMessage userInput]) (conversationMode w) apiKey),
                   Fetch_call (build_request (messages w @ [userMessage userInput, a] @ ms)
                (conversationMode w) apiKey)]\<rparr>))"
    using assms(3-9)
    by (simp add: try_block_def sendMessage_eq tool_loop_eq wants_tools_def trace_save)
  show "saves (trace (handleSendMessage e userInput w)) =
           saves (trace w) @ [[userMessage userInput], a # ms @ [final]]"
    unfolding handleSendMessage_accepted[OF assms(1,2)] eq
    by (simp add: trace_save saves_append)
  show "messages (handleSendMessage e userInput w) =
           messages w @ userMessage userInput # a # ms @ [final]"
    unfolding handleSendMessage_accepted[OF assms(1,2)] eq
    by (simp add: messages_save)
  show "sena_history (handleSendMessage e userInput w) =
           Some (JSON_stringify (messages w @ userMessage userInput # a # ms @ [final]))"
    unfolding handleSendMessage_accepted[OF assms(1,2)] eq
    by (simp add: sena_history_save messages_save)
  show "fetches (trace (handleSendMessage e userInput w)) =
           fetches (trace w) @
             [build_request (messages w @ [userMessage userInput]) (conversationMode w) apiKey,
              build_request (messages w @ [userMessage userInput, a] @ ms)
                (conversationMode w) apiKey]"
    unfolding handleSendMessage_accepted[OF assms(1,2)] eq
    by (simp add: trace_save fetches_append)
qed

lemma image_result:
  "tool_result image_call =
     Inr (''Imagem gerada com sucesso: ![a cat](https://image.pollinations.ai/prompt/a%20cat?width=1024&height=1024&nologo=true)'')"
  by (simp add: tool_result_def image_call_def JSON_parse_def execute_tool_def template_String_def
        encodeURIComponent_def percent_byte_def uri_unreserved_def hex_digit_def Let_def)




text \<open>From the result of the \<^verbatim>\<open>try\<close> block to the failure path of the pass.\<close>

lemma failed_pass_intro:
  assumes "\<not> blank userInput" and "\<not> isLoading w"
    and "try_block e (messages w) (userMessage userInput) (conversationMode w)
           ((saveMessageToHistory e [userMessage userInput] w)\<lparr>isLoading := True\<rparr>) =
         (Inl err,
          (saveMessageToHistory e [userMessage userInput] w)
            \<lparr>isLoading := True,
             trace := trace w @ Save_call [userMessage userInput] # map Fetch_call rs\<rparr>)"
  shows "failed_pass e userInput w err rs"
proof -
  have fetches_map: "\<And>xs. fetches (map Fetch_call xs) = xs"
  proof -
    fix xs :: "request list" show "fetches (map Fetch_call xs) = xs" by (induction xs) simp_all
  qed
  have saves_map: "\<And>xs. saves (map Fetch_call xs) = []"
  proof -
    fix xs :: "request list" show "saves (map Fetch_call xs) = []" by (induction xs) simp_all
  qed
  show ?thesis
    unfolding failed_pass_def pass_outcome_accepted[OF assms(1,2)]
      handleSendMessage_accepted[OF assms(1,2)] assms(3)
    by (simp add: messages_save sena_history_save trace_save isLoading_save saves_append
          fetches_append fetches_map saves_map)
qed

lemma failed_no_key:
  assumes "\<not> blank userInput" and "\<not> isLoading w"
    and "API_KEY e = None \<or> API_KEY e = Some []"
  shows "failed_pass e userInput w (Error missing_key_message) []"
  using assms(3)
  by (intro failed_pass_intro[OF assms(1,2)]) (auto simp: try_block_def trace_save)

lemma failed_first:
  assumes "\<not> blank userInput" and "\<not> isLoading w"
    and "API_KEY e = Some apiKey" and "apiKey \<noteq> []"
    and "read_response (fetch e (build_request (messages w @ [userMessage userInput])
           (conversationMode w) apiKey)) = Inl err"
  shows "failed_pass e userInput w err
           [build_request (messages w @ [userMessage userInput]) (conversationMode w) apiKey]"
  using assms(3-5)
  by (intro failed_pass_intro[OF assms(1,2)]) (simp add: try_block_def sendMessage_eq trace_save)

lemma failed_tool:
  assumes "\<not> blank userInput" and "\<not> isLoading w"
    and "API_KEY e = Some apiKey" and "apiKey \<noteq> []"
    and "read_response (fetch e (build_request (messages w @ [userMessage userInput])
           (conversationMode w) apiKey)) = Inr a"
    and "tool_calls a = Some (pre @ tc # post)"
    and "\<And>t. t \<in> set pre \<Longrightarrow> \<exists>x. tool_result t = Inr x"
    and "tool_result tc = Inl err"
  shows "failed_pass e userInput w err
           [build_request (messages w @ [userMessage userInput]) (conversationMode w) apiKey]"
proof -
  have tm: "tool_messages (pre @ tc # post) = Inl err"
    using tool_messages_failed[OF assms(7,8)] by simp
  show ?thesis
    using assms(3-6) tm
    by (intro failed_pass_intro[OF assms(1,2)])
       (simp add: try_block_def sendMessage_eq tool_loop_eq wants_tools_def trace_save)
qed

lemma failed_second:
  assumes "\<not> blank userInput" and "\<not> isLoading w"
    and "API_KEY e = Some apiKey" and "apiKey \<noteq> []"
    and "read_response (fetch e (build_request (messages w @ [userMessage userInput])
           (conversationMode w) apiKey)) = Inr a"
    and "tool_calls a = Some tcs" and "tcs \<noteq> []"
    and "\<And>t. t \<in> set tcs \<Longrightarrow> \<exists>x. tool_result t = Inr x"
    and "read_response (fetch e (build_request
           (messages w @ [userMessage userInput, a] @
              map (\<lambda>t. toolMessage t (projr (tool_result t))) tcs)
           (conversationMode w) apiKey)) = Inl err"
  shows "failed_pass e userInput w err
           [build_request (messages w @ [userMessage userInput]) (conversationMode w) apiKey,
            build_request
              (messages w @ [userMessage userInput, a] @
                 map (\<lambda>t. toolMessage t (projr (tool_result t))) tcs)
              (conversationMode w) apiKey]"
proof -
  have tm: "tool_messages tcs = Inr (map (\<lambda>t. toolMessage t (projr (tool_result t))) tcs)"
    using tool_messages_ok[OF assms(8)] by simp
  show ?thesis
    using assms(3-7,9) tm
    by (intro failed_pass_intro[OF assms(1,2)])
       (simp add: try_block_def sendMessage_eq tool_loop_eq wants_tools_def trace_save)
qed

lemma records_sorted:
  "mono clock \<Longrightarrow> sorted (map created_at (records clock k ms))"
  unfolding records_created_at
  by (simp add: sorted_map monoD sorted_wrt_mono_rel[of _ "(\<le>)"])

lemma format_rows_fields:
  "format_rows rows = Inr formatted \<Longrightarrow>
   map role formatted = map row_role rows \<and> map content formatted = map row_content rows"
proof (induction rows arbitrary: formatted)
  case Nil
  then show ?case by simp
next
  case (Cons d ds)
  then show ?case
    by (auto simp: format_row_def split: sum.splits)
qed

lemma tie_rows_eq:
  "tie_rows =
     [\<lparr>row_role = User, row_content = ''traduza oi'', row_tool_calls = Db_null,
       created_at = 1700000000000\<rparr>,
      \<lparr>row_role = Assistant, row_content = [],
       row_tool_calls = Db_string (Text_of [unknown_call]), created_at = 1700000000850\<rparr>,
      \<lparr>row_role = Tool, row_content = ''Ferramenta desconhecida.'', row_tool_calls = Db_null,
       created_at = 1700000000850\<rparr>,
      \<lparr>row_role = Assistant, row_content = ''Nao sei traduzir.'', row_tool_calls = Db_null,
       created_at = 1700000000850\<rparr>]"
  by (simp add: tie_rows_def tie_world_def tie_env_def coarse_clock_def unknown_service_def
        pass_defs unknown_call_def declared_def unknown_tool_result_def Let_def)

subsection \<open>Single flight\<close>

text \<open>
  C6. While a pass is in flight (\<open>isLoading\<close> is set), \<open>handleSendMessage\<close> returns at its
  guard: the world stays as it is, so the log, both stores and the trace of calls (no
  save, no request to the completion service) are unchanged.
\<close>

theorem single_flight:
  "isLoading w \<Longrightarrow>
     handleSendMessage e userInput w = w \<and> pass_outcome e userInput w = Rejected"
  by (simp add: handleSendMessage_def pass_outcome_def)

theorem single_flight_witness:
  "isLoading busy_world \<and>
   handleSendMessage (sample_env (\<lambda>r. unauthorized)) ''oi'' busy_world = busy_world"
  using single_flight [of busy_world "sample_env (\<lambda>r. unauthorized)" "''oi''"]
  by (simp add: busy_world_def idle_world_def)

subsection \<open>Clearing the conversation\<close>

text \<open>
  C10. A confirmed \<open>handleClearChat\<close> empties the in-memory log and removes the local
  storage entry; the remote table is left exactly as it was.
\<close>

theorem clear_chat_keeps_mirror:
  "messages (handleClearChat True w) = [] \<and>
   sena_history (handleClearChat True w) = None \<and>
   supabase (handleClearChat True w) = supabase w"
  by (simp add: handleClearChat_def)

subsection \<open>The user message is durable\<close>




subsection \<open>Load precedence\<close>




subsection \<open>Failure handling\<close>

text \<open>
  C3. In an accepted pass, every exception that leaves the \<^verbatim>\<open>try\<close> block after the user
  message was saved takes the failure path \<open>failed_pass\<close>: the saves of the pass are the user
  message and then one batch holding the single assistant message whose content is the
  warning marker, a fixed apology and the message of the exception; nothing of the pending
  batch reaches the log or the local store; and each request was sent once, none again.
  The exceptions are: a missing key (no request); a first completion that fails, in
  particular a response with status 401 (the invalid-key error), a rejected
  \<^verbatim>\<open>fetch\<close>, or another non-success response (an error carrying the body's message or
  the status text), after one request; a tool call that raises, in particular a payload
  that does not parse, again after one request, the second never being sent; and a second
  completion that fails, after two requests.
\<close>

theorem failure_reply:
  assumes "\<not> blank userInput" and "\<not> isLoading w"
  shows
   "(API_KEY e = None \<or> API_KEY e = Some [] \<longrightarrow>
       failed_pass e userInput w (Error missing_key_message) []) \<and>
    (API_KEY e = Some apiKey \<and> apiKey \<noteq> [] \<and>
     r1 = build_request (messages w @ [userMessage userInput]) (conversationMode w) apiKey \<longrightarrow>
       (read_response (fetch e r1) = Inl err \<longrightarrow> failed_pass e userInput w err [r1]) \<and>
       (fetch e r1 = Resolves r \<and> status r = 401 \<longrightarrow>
          failed_pass e userInput w (Error invalid_key_message) [r1]) \<and>
       (fetch e r1 = Rejects m \<longrightarrow> failed_pass e userInput w (TypeError m) [r1]) \<and>
       (fetch e r1 = Resolves r \<and> \<not> ok r \<and> status r \<noteq> 401 \<and>
        body r = Text_of (Value_body None cs) \<longrightarrow>
          failed_pass e userInput w (Error (''Erro API Mistral: '' @ statusText r)) [r1]) \<and>
       (fetch e r1 = Resolves r \<and> \<not> ok r \<and> status r \<noteq> 401 \<and>
        body r = Text_of (Value_body (Some (JStr s)) cs) \<and> s \<noteq> [] \<longrightarrow>
          failed_pass e userInput w (Error (''Erro API Mistral: '' @ s)) [r1]) \<and>
       (read_response (fetch e r1) = Inr a \<and> tool_calls a = Some (pre @ tc # post) \<and>
        (\<forall>t \<in> set pre. \<exists>x. tool_result t = Inr x) \<longrightarrow>
          (tool_result tc = Inl err \<longrightarrow> failed_pass e userInput w err [r1]) \<and>
          (fn_arguments tc = Malformed m \<longrightarrow>
             failed_pass e userInput w (SyntaxError m) [r1])) \<and>
       (read_response (fetch e r1) = Inr a \<and> tool_calls a = Some tcs \<and> tcs \<noteq> [] \<and>
        (\<forall>t \<in> set tcs. \<exists>x. tool_result t = Inr x) \<and>
        r2 = build_request
               (messages w @ [userMessage userInput, a] @
                  map (\<lambda>t. toolMessage t (projr (tool_result t))) tcs)
               (conversationMode w) apiKey \<longrightarrow>
          (read_response (fetch e r2) = Inl err \<longrightarrow> failed_pass e userInput w err [r1, r2]) \<and>
          (fetch e r2 = Resolves r \<and> status r = 401 \<longrightarrow>
             failed_pass e userInput w (Error invalid_key_message) [r1, r2]))) \<and>
    role (error_reply err) = Assistant \<and>
    content (error_reply err) =
      [CHR 0xE2, CHR 0x9A, CHR 0xA0, CHR 0xEF, CHR 0xB8, CHR 0x8F] @
      '' Desculpe, ocorreu um erro: '' @ error_message err \<and>
    tool_calls (error_reply err) = None"
proof -
  note acc = assms
  have no_key: "API_KEY e = None \<or> API_KEY e = Some [] \<longrightarrow>
       failed_pass e userInput w (Error missing_key_message) []"
    using failed_no_key[OF acc] by blast
  have reply: "role (error_reply err) = Assistant \<and>
    content (error_reply err) =
      [CHR 0xE2, CHR 0x9A, CHR 0xA0, CHR 0xEF, CHR 0xB8, CHR 0x8F] @
      '' Desculpe, ocorreu um erro: '' @ error_message err \<and>
    tool_calls (error_reply err) = None"
    by (simp add: error_reply_def warning_marker_def)
  have keyed: "API_KEY e = Some apiKey \<and> apiKey \<noteq> [] \<and>
     r1 = build_request (messages w @ [userMessage userInput]) (conversationMode w) apiKey \<longrightarrow>
       (read_response (fetch e r1) = Inl err \<longrightarrow> failed_pass e userInput w err [r1]) \<and>
       (fetch e r1 = Resolves r \<and> status r = 401 \<longrightarrow>
          failed_pass e userInput w (Error invalid_key_message) [r1]) \<and>
       (fetch e r1 = Rejects m \<longrightarrow> failed_pass e userInput w (TypeError m) [r1]) \<and>
       (fetch e r1 = Resolves r \<and> \<not> ok r \<and> status r \<noteq> 401 \<and>
        body r = Text_of (Value_body None cs) \<longrightarrow>
          failed_pass e userInput w (Error (''Erro API Mistral: '' @ statusText r)) [r1]) \<and>
       (fetch e r1 = Resolves r \<and> \<not> ok r \<and> status r \<noteq> 401 \<and>
        body r = Text_of (Value_body (Some (JStr s)) cs) \<and> s \<noteq> [] \<longrightarrow>
          failed_pass e userInput w (Error (''Erro API Mistral: '' @ s)) [r1]) \<and>
       (read_response (fetch e r1) = Inr a \<and> tool_calls a = Some (pre @ tc # post) \<and>
        (\<forall>t \<in> set pre. \<exists>x. tool_result t = Inr x) \<longrightarrow>
          (tool_result tc = Inl err \<longrightarrow> failed_pass e userInput w err [r1]) \<and>
          (fn_arguments tc = Malformed m \<longrightarrow>
             failed_pass e userInput w (SyntaxError m) [r1])) \<and>
       (read_response (fetch e r1) = Inr a \<and> tool_calls a = Some tcs \<and> tcs \<noteq> [] \<and>
        (\<forall>t \<in> set tcs. \<exists>x. tool_result t = Inr x) \<and>
        r2 = build_request
               (messages w @ [userMessage userInput, a] @
                  map (\<lambda>t. toolMessage t (projr (tool_result t))) tcs)
               (conversationMode w) apiKey \<longrightarrow>
          (read_response (fetch e r2) = Inl err \<longrightarrow> failed_pass e userInput w err [r1, r2]) \<and>
          (fetch e r2 = Resolves r \<and> status r = 401 \<longrightarrow>
             failed_pass e userInput w (Error invalid_key_message) [r1, r2]))"
  proof (intro impI)
    assume k: "API_KEY e = Some apiKey \<and> apiKey \<noteq> [] \<and>
     r1 = build_request (messages w @ [userMessage userInput]) (conversationMode w) apiKey"
    then have key: "API_KEY e = Some apiKey" "apiKey \<noteq> []"
      and r1: "r1 = build_request (messages w @ [userMessage userInput]) (conversationMode w) apiKey"
      by simp_all
    have first: "\<And>x. read_response (fetch e r1) = Inl x \<Longrightarrow> failed_pass e userInput w x [r1]"
      using failed_first[OF acc key] unfolding r1 by blast
    have c1: "read_response (fetch e r1) = Inl err \<longrightarrow> failed_pass e userInput w err [r1]"
      using first by blast
    have c2: "fetch e r1 = Resolves r \<and> status r = 401 \<longrightarrow>
          failed_pass e userInput w (Error invalid_key_message) [r1]"
      using first[of "Error invalid_key_message"] by (simp add: read_unauthorized)
    have c3: "fetch e r1 = Rejects m \<longrightarrow> failed_pass e userInput w (TypeError m) [r1]"
      using first[of "TypeError m"] by (simp add: read_response_def)
    have c4: "fetch e r1 = Resolves r \<and> \<not> ok r \<and> status r \<noteq> 401 \<and>
        body r = Text_of (Value_body None cs) \<longrightarrow>
          failed_pass e userInput w (Error (''Erro API Mistral: '' @ statusText r)) [r1]"
      using first[of "Error (''Erro API Mistral: '' @ statusText r)"]
      by (simp add: read_failure_json)
    have c5: "fetch e r1 = Resolves r \<and> \<not> ok r \<and> status r \<noteq> 401 \<and>
        body r = Text_of (Value_body (Some (JStr s)) cs) \<and> s \<noteq> [] \<longrightarrow>
          failed_pass e userInput w (Error (''Erro API Mistral: '' @ s)) [r1]"
      using first[of "Error (''Erro API Mistral: '' @ s)"]
      by (simp add: read_failure_json template_String_def)
    have c6: "read_response (fetch e r1) = Inr a \<and> tool_calls a = Some (pre @ tc # post) \<and>
        (\<forall>t \<in> set pre. \<exists>x. tool_result t = Inr x) \<longrightarrow>
          (tool_result tc = Inl err \<longrightarrow> failed_pass e userInput w err [r1]) \<and>
          (fn_arguments tc = Malformed m \<longrightarrow>
             failed_pass e userInput w (SyntaxError m) [r1])"
    proof (intro impI conjI)
      assume h: "read_response (fetch e r1) = Inr a \<and> tool_calls a = Some (pre @ tc # post) \<and>
        (\<forall>t \<in> set pre. \<exists>x. tool_result t = Inr x)"
      then have pre: "\<And>t. t \<in> set pre \<Longrightarrow> \<exists>x. tool_result t = Inr x" by blast
      have tool: "\<And>x. tool_result tc = Inl x \<Longrightarrow> failed_pass e userInput w x [r1]"
        using failed_tool[OF acc key _ _ pre] h unfolding r1 by blast
      show "tool_result tc = Inl err \<Longrightarrow> failed_pass e userInput w err [r1]"
        by (rule tool)
      show "fn_arguments tc = Malformed m \<Longrightarrow> failed_pass e userInput w (SyntaxError m) [r1]"
        by (rule tool) (simp add: tool_result_def JSON_parse_def)
    qed
    have c7: "read_response (fetch e r1) = Inr a \<and> tool_calls a = Some tcs \<and> tcs \<noteq> [] \<and>
        (\<forall>t \<in> set tcs. \<exists>x. tool_result t = Inr x) \<and>
        r2 = build_request
               (messages w @ [userMessage userInput, a] @
                  map (\<lambda>t. toolMessage t (projr (tool_result t))) tcs)
               (conversationMode w) apiKey \<longrightarrow>
          (read_response (fetch e r2) = Inl err \<longrightarrow> failed_pass e userInput w err [r1, r2]) \<and>
          (fetch e r2 = Resolves r \<and> status r = 401 \<longrightarrow>
             failed_pass e userInput w (Error invalid_key_message) [r1, r2])"
    proof (intro impI)
      assume h: "read_response (fetch e r1) = Inr a \<and> tool_calls a = Some tcs \<and> tcs \<noteq> [] \<and>
        (\<forall>t \<in> set tcs. \<exists>x. tool_result t = Inr x) \<and>
        r2 = build_request
               (messages w @ [userMessage userInput, a] @
                  map (\<lambda>t. toolMessage t (projr (tool_result t))) tcs)
               (conversationMode w) apiKey"
      then have all: "\<And>t. t \<in> set tcs \<Longrightarrow> \<exists>x. tool_result t = Inr x" by blast
      have second: "\<And>x. read_response (fetch e r2) = Inl x \<Longrightarrow>
          failed_pass e userInput w x [r1, r2]"
        using failed_second[OF acc key _ _ _ all] h unfolding r1 by blast
      have "read_response (fetch e r2) = Inl err \<longrightarrow> failed_pass e userInput w err [r1, r2]"
        using second by blast
      moreover have "fetch e r2 = Resolves r \<and> status r = 401 \<longrightarrow>
             failed_pass e userInput w (Error invalid_key_message) [r1, r2]"
        using second[of "Error invalid_key_message"] by (simp add: read_unauthorized)
      ultimately show "(read_response (fetch e r2) = Inl err \<longrightarrow>
             failed_pass e userInput w err [r1, r2]) \<and>
          (fetch e r2 = Resolves r \<and> status r = 401 \<longrightarrow>
             failed_pass e userInput w (Error invalid_key_message) [r1, r2])"
        by blast
    qed
    from c1 c2 c3 c4 c5 c6 c7 show
      "(read_response (fetch e r1) = Inl err \<longrightarrow> failed_pass e userInput w err [r1]) \<and>
       (fetch e r1 = Resolves r \<and> status r = 401 \<longrightarrow>
          failed_pass e userInput w (Error invalid_key_message) [r1]) \<and>
       (fetch e r1 = Rejects m \<longrightarrow> failed_pass e userInput w (TypeError m) [r1]) \<and>
       (fetch e r1 = Resolves r \<and> \<not> ok r \<and> status r \<noteq> 401 \<and>
        body r = Text_of (Value_body None cs) \<longrightarrow>
          failed_pass e userInput w (Error (''Erro API Mistral: '' @ statusText r)) [r1]) \<and>
       (fetch e r1 = Resolves r \<and> \<not> ok r \<and> status r \<noteq> 401 \<and>
        body r = Text_of (Value_body (Some (JStr s)) cs) \<and> s \<noteq> [] \<longrightarrow>
          failed_pass e userInput w (Error (''Erro API Mistral: '' @ s)) [r1]) \<and>
       (read_response (fetch e r1) = Inr a \<and> tool_calls a = Some (pre @ tc # post) \<and>
        (\<forall>t \<in> set pre. \<exists>x. tool_result t = Inr x) \<longrightarrow>
          (tool_result tc = Inl err \<longrightarrow> failed_pass e userInput w err [r1]) \<and>
          (fn_arguments tc = Malformed m \<longrightarrow>
             failed_pass e userInput w (SyntaxError m) [r1])) \<and>
       (read_response (fetch e r1) = Inr a \<and> tool_calls a = Some tcs \<and> tcs \<noteq> [] \<and>
        (\<forall>t \<in> set tcs. \<exists>x. tool_result t = Inr x) \<and>
        r2 = build_request
               (messages w @ [userMessage userInput, a] @
                  map (\<lambda>t. toolMessage t (projr (tool_result t))) tcs)
               (conversationMode w) apiKey \<longrightarrow>
          (read_response (fetch e r2) = Inl err \<longrightarrow> failed_pass e userInput w err [r1, r2]) \<and>
          (fetch e r2 = Resolves r \<and> status r = 401 \<longrightarrow>
             failed_pass e userInput w (Error invalid_key_message) [r1, r2]))"
      by (intro conjI) assumption+
  qed
  show ?thesis by (rule conjI[OF no_key conjI[OF keyed reply]])
qed

theorem failure_reply_witness:
  "failed_pass (sample_env (\<lambda>r. unauthorized)) ''oi'' idle_world (Error invalid_key_message)
     [build_request [userMessage ''oi''] Explicativo ''key''] \<and>
   saves (trace (handleSendMessage (sample_env (\<lambda>r. unauthorized)) ''oi'' idle_world)) =
     [[userMessage ''oi''], [error_reply (Error invalid_key_message)]] \<and>
   failed_pass (sample_env broken_service) ''oi'' idle_world
     (SyntaxError ''Unterminated string in JSON at position 9'')
     [build_request [userMessage ''oi''] Explicativo ''key''] \<and>
   saves (trace (handleSendMessage (sample_env broken_service) ''oi'' idle_world)) =
     [[userMessage ''oi''],
      [error_reply (SyntaxError ''Unterminated string in JSON at position 9'')]]"
proof -
  let ?r1 = "build_request (messages idle_world @ [userMessage ''oi''])
               (conversationMode idle_world) ''key''"
  have a: "\<not> blank ''oi''" by (simp add: white1_def white2_def)
  have b: "\<not> isLoading idle_world" by (simp add: idle_world_def)
  have r1: "?r1 = build_request [userMessage ''oi''] Explicativo ''key''"
    by (simp add: idle_world_def)
  have k1: "API_KEY (sample_env (\<lambda>r. unauthorized)) = Some ''key'' \<and> ''key'' \<noteq> [] \<and>
            ?r1 = ?r1"
    by (simp add: sample_env_def)
  have f1: "fetch (sample_env (\<lambda>r. unauthorized)) ?r1 =
              Resolves \<lparr>status = 401, statusText = ''Unauthorized'',
                body = Text_of (Value_body (Some (JStr ''Unauthorized'')) None)\<rparr> \<and>
            status \<lparr>status = 401, statusText = ''Unauthorized'',
                body = Text_of (Value_body (Some (JStr ''Unauthorized'')) None)\<rparr> = 401"
    by (simp add: sample_env_def unauthorized_def)
  have one: "failed_pass (sample_env (\<lambda>r. unauthorized)) ''oi'' idle_world
               (Error invalid_key_message) [?r1]"
    using failure_reply [OF a b, where e = "sample_env (\<lambda>r. unauthorized)"
        and apiKey = "''key''" and ?r1.0 = ?r1
        and r = "\<lparr>status = 401, statusText = ''Unauthorized'',
                body = Text_of (Value_body (Some (JStr ''Unauthorized'')) None)\<rparr>"] k1 f1
    by blast
  have k2: "API_KEY (sample_env broken_service) = Some ''key'' \<and> ''key'' \<noteq> [] \<and> ?r1 = ?r1"
    by (simp add: sample_env_def)
  have f2: "read_response (fetch (sample_env broken_service) ?r1) = Inr (asking [broken_call]) \<and>
            tool_calls (asking [broken_call]) = Some ([] @ broken_call # []) \<and>
            (\<forall>t \<in> set []. \<exists>x. tool_result t = Inr x)"
    by (simp add: pass_defs broken_service_def)
  have m2: "fn_arguments broken_call = Malformed ''Unterminated string in JSON at position 9''"
    by (simp add: broken_call_def)
  have two: "failed_pass (sample_env broken_service) ''oi'' idle_world
               (SyntaxError ''Unterminated string in JSON at position 9'') [?r1]"
    using failure_reply [OF a b, where e = "sample_env broken_service"
        and apiKey = "''key''" and ?r1.0 = ?r1 and a = "asking [broken_call]"
        and pre = "[]" and tc = broken_call and post = "[]"
        and m = "''Unterminated string in JSON at position 9''"] k2 f2 m2
    by blast
  from one two show ?thesis
    unfolding r1 by (simp add: failed_pass_def idle_world_def)
qed

subsection \<open>The outgoing message list\<close>

text \<open>
  C5. The outgoing list should be one fresh system message for the mode, then the history
  without the system messages it already holds, and the request carries the declared
  tools (\<open>body_tools_build_request\<close>). The comments of \<open>sendMessage\<close> announce a filter and
  the replacement of an existing system prompt, but the code maps over the whole history
  and filters nothing (\<open>body_messages_build_request\<close>): a history that holds a system
  message is sent with two system messages, the fresh one and the old one.
\<close>

theorem system_message_forwarded:
  "body_messages (build_request stale_history Explicativo ''key'') =
     [plain System (getSystemPrompt Explicativo), plain System ''Seja breve.'',
      plain User ''oi''] \<and>
   length (filter (\<lambda>m. role m = System)
             (body_messages (build_request stale_history Explicativo ''key''))) = 2"
  by (simp add: body_messages_build_request stale_history_def plain_def)

subsection \<open>Responses of the completion service\<close>

text \<open>
  C8. A response with status 401 gives the invalid-key error (\<open>read_unauthorized\<close>); any
  other non-success response whose body is a JSON value gives an error carrying the body's
  \<^verbatim>\<open>message\<close> or else the status text (\<open>read_failure_json\<close>); a success gives the message
  of the first choice as it is (\<open>read_success\<close>). A non-success response whose body is not
  JSON, here a 502 with an HTML page, leaves \<open>sendMessage\<close> with the parser's
  \<^verbatim>\<open>SyntaxError\<close> instead, carrying neither the server's message nor the status text.
\<close>

theorem unparsable_error_body:
  "\<not> ok bad_gateway \<and> status bad_gateway \<noteq> 401 \<and>
   read_response (Resolves bad_gateway) =
     Inl (SyntaxError (''Unexpected token '' @ [CHR 0x27] @ ''<'' @ [CHR 0x27] @ '', '' @
            [CHR 0x22] @ ''<html>'' @ [CHR 0x22] @ ''... is not valid JSON'')) \<and>
   read_response (Resolves bad_gateway) \<noteq>
     Inl (Error (''Erro API Mistral: '' @ statusText bad_gateway))"
  by (simp add: read_response_def ok_def bad_gateway_def JSON_parse_def)

subsection \<open>The remote records and their order\<close>

text \<open>
  C9. Each message of a batch is written as a row of its role, its content, its tool calls
  as JSON text or \<^verbatim>\<open>null\<close>, and a time stamp (\<open>records_shape\<close>, \<open>records_created_at\<close>);
  under a monotone clock the time stamps do not decrease along the batch
  (\<open>records_sorted\<close>). They are clock readings of millisecond resolution, one per message,
  and the rows of one batch are built in one synchronous step, so they can all carry the
  same reading. After a tool pass under such a clock the three rows of the batch carry one
  time stamp; the table with the batch reversed is ordered by \<^verbatim>\<open>created_at\<close> as well,
  and loading it puts the final answer before the tool message and the tool message before
  the assistant message that asked for it.
\<close>

theorem created_at_ties:
  "map content (messages tie_world) =
     [''traduza oi'', [], ''Ferramenta desconhecida.'', ''Nao sei traduzir.''] \<and>
   supabase tie_world = Some tie_rows \<and>
   map created_at tie_rows = [1700000000000, 1700000000850, 1700000000850, 1700000000850] \<and>
   ordered_by_created_at tie_rows (hd tie_rows # rev (tl tie_rows)) \<and>
   map content (messages (loadChatHistory
       (Select_returns False (Some (hd tie_rows # rev (tl tie_rows)))) tie_world)) =
     [''traduza oi'', ''Nao sei traduzir.'', ''Ferramenta desconhecida.'', []]"
proof -
  have m: "map content (messages tie_world) =
     [''traduza oi'', [], ''Ferramenta desconhecida.'', ''Nao sei traduzir.'']"
    by (simp add: tie_world_def tie_env_def coarse_clock_def unknown_service_def pass_defs
        unknown_call_def declared_def unknown_tool_result_def Let_def)
  have s: "supabase tie_world = Some tie_rows"
    by (simp add: tie_rows_def tie_world_def tie_env_def unknown_service_def pass_defs
        unknown_call_def Let_def)
  show ?thesis
    using m s
    by (simp add: tie_rows_eq ordered_by_created_at_def loadChatHistory_def load_primary_def
          format_row_def JSON_parse_def Let_def)
qed

subsection \<open>The batch of a tool pass\<close>

text \<open>
  C1, as the code has it. Take a pass whose first completion carries a non-empty list of
  tool calls, where every payload parses and no tool raises on its payload (for
  \<^verbatim>\<open>generate_image\<close>: reading \<^verbatim>\<open>prompt\<close> raises nothing, so the payload is not
  \<^verbatim>\<open>null\<close>, and the prompt converts to a string that holds no lone surrogate; for
  \<^verbatim>\<open>web_search\<close>: reading \<^verbatim>\<open>query\<close> raises nothing and the query converts to a
  string), and the second completion returns a message. Then the pass makes exactly two
  saves: the user message, and one batch that is the assistant message carrying the tool
  calls, then one tool message per call in the order of the calls (each naming its call
  and holding that call's result), then the final assistant message. The log and the local
  store end with this batch.
\<close>

theorem tool_pass_batch:
  assumes "\<not> blank userInput" and "\<not> isLoading w"
    and "API_KEY e = Some apiKey" and "apiKey \<noteq> []"
    and "read_response (fetch e (build_request (messages w @ [userMessage userInput])
           (conversationMode w) apiKey)) = Inr a"
    and "tool_calls a = Some tcs" and "tcs \<noteq> []"
    and "\<forall>tc \<in> set tcs. \<exists>v. fn_arguments tc = Text_of v \<and>
           (fn_name tc = ''generate_image'' \<longrightarrow>
              (\<exists>p s. get_property v ''prompt'' = Inr p \<and> template_String p = Inr s \<and>
                     \<not> lone_surrogate s)) \<and>
           (fn_name tc = ''web_search'' \<longrightarrow>
              (\<exists>p s. get_property v ''query'' = Inr p \<and> template_String p = Inr s))"
    and "toolMsgs = map (\<lambda>tc. toolMessage tc (projr (tool_result tc))) tcs"
    and "read_response (fetch e (build_request
           (messages w @ [userMessage userInput, a] @ toolMsgs) (conversationMode w) apiKey)) =
         Inr final"
  shows "saves (trace (handleSendMessage e userInput w)) =
           saves (trace w) @ [[userMessage userInput], a # toolMsgs @ [final]] \<and>
         messages (handleSendMessage e userInput w) =
           messages w @ userMessage userInput # a # toolMsgs @ [final] \<and>
         sena_history (handleSendMessage e userInput w) =
           Some (JSON_stringify (messages w @ userMessage userInput # a # toolMsgs @ [final])) \<and>
         length toolMsgs = length tcs \<and>
         (\<forall>i < length tcs.
            role (toolMsgs ! i) = Tool \<and>
            tool_call_id (toolMsgs ! i) = Some (tc_id (tcs ! i)) \<and>
            name (toolMsgs ! i) = Some (fn_name (tcs ! i)) \<and>
            tool_result (tcs ! i) = Inr (content (toolMsgs ! i)))"
proof -
  have ok: "\<And>tc. tc \<in> set tcs \<Longrightarrow> \<exists>r. tool_result tc = Inr r"
    using assms(8) tool_result_raises_nothing by blast
  have tm: "tool_messages tcs = Inr toolMsgs"
    using tool_messages_ok[OF ok] assms(9) by simp
  have each: "\<forall>i < length tcs.
            role (toolMsgs ! i) = Tool \<and>
            tool_call_id (toolMsgs ! i) = Some (tc_id (tcs ! i)) \<and>
            name (toolMsgs ! i) = Some (fn_name (tcs ! i)) \<and>
            tool_result (tcs ! i) = Inr (content (toolMsgs ! i))"
  proof (intro allI impI)
    fix i assume i: "i < length tcs"
    then obtain r where r: "tool_result (tcs ! i) = Inr r" using ok[of "tcs ! i"] by auto
    show "role (toolMsgs ! i) = Tool \<and>
            tool_call_id (toolMsgs ! i) = Some (tc_id (tcs ! i)) \<and>
            name (toolMsgs ! i) = Some (fn_name (tcs ! i)) \<and>
            tool_result (tcs ! i) = Inr (content (toolMsgs ! i))"
      using i r by (simp add: assms(9) toolMessage_def)
  qed
  show ?thesis
    using tool_pass_world(2,3,4)[OF assms(1-7) tm assms(10)] each
    by (simp add: assms(9))
qed


theorem tool_pass_batch_witness:
  "saves (trace (handleSendMessage (sample_env tool_pass_service) ''draw a cat'' idle_world)) =
     [[userMessage ''draw a cat''],
      [asking [image_call],
       toolMessage image_call
         (''Imagem gerada com sucesso: ![a cat](https://image.pollinations.ai/prompt/a%20cat?width=1024&height=1024&nologo=true)''),
       plain Assistant ''Aqui esta.'']]"
proof -
  let ?e = "sample_env tool_pass_service"
  let ?ms = "map (\<lambda>tc. toolMessage tc (projr (tool_result tc))) [image_call]"
  have 1: "\<not> blank ''draw a cat''" by (simp add: white1_def white2_def white3_def)
  have 2: "\<not> isLoading idle_world" by (simp add: idle_world_def)
  have 3: "API_KEY ?e = Some ''key''" by (simp add: sample_env_def)
  have 4: "''key'' \<noteq> []" by simp
  have 5: "read_response (fetch ?e (build_request (messages idle_world @ [userMessage ''draw a cat''])
           (conversationMode idle_world) ''key'')) = Inr (asking [image_call])"
    by (simp add: pass_defs tool_pass_service_def)
  have 6: "tool_calls (asking [image_call]) = Some [image_call]" by (simp add: asking_def)
  have 7: "[image_call] \<noteq> []" by simp
  have 8: "\<forall>tc \<in> set [image_call]. \<exists>v. fn_arguments tc = Text_of v \<and>
           (fn_name tc = ''generate_image'' \<longrightarrow>
              (\<exists>p s. get_property v ''prompt'' = Inr p \<and> template_String p = Inr s \<and>
                     \<not> lone_surrogate s)) \<and>
           (fn_name tc = ''web_search'' \<longrightarrow>
              (\<exists>p s. get_property v ''query'' = Inr p \<and> template_String p = Inr s))"
    by (simp add: image_call_def template_String_def)
  have 10: "read_response (fetch ?e (build_request
           (messages idle_world @ [userMessage ''draw a cat'', asking [image_call]] @ ?ms)
           (conversationMode idle_world) ''key'')) = Inr (plain Assistant ''Aqui esta.'')"
    by (simp add: sample_env_def tool_pass_service_def scripted_def completes_def
          build_request_def messagesPayload_def read_response_def ok_def JSON_parse_def idle_world_def)
  show ?thesis
    using tool_pass_batch [OF 1 2 3 4 5 6 7 8 refl 10]
    by (simp add: image_result idle_world_def)
qed

text \<open>
  The added conditions are needed. A tool call can raise although its payload parses: a
  declared tool given \<^verbatim>\<open>null\<close> raises a \<^verbatim>\<open>TypeError\<close> when its property is read, a
  prompt that is an object with an own \<^verbatim>\<open>toString\<close> raises a \<^verbatim>\<open>TypeError\<close> when it is
  converted to a string, and a prompt holding a lone surrogate raises a \<^verbatim>\<open>URIError\<close> when
  it is encoded. A second completion that fails raises as well. In all four passes the
  batch saved is the single error reply.
\<close>

theorem tool_pass_batch_counterexample:
  "read_response (fetch (sample_env null_service)
      (build_request (messages idle_world @ [userMessage ''draw a cat''])
         (conversationMode idle_world) ''key'')) = Inr (asking [null_call]) \<and>
   JSON_parse (fn_arguments null_call) = Inr JNull \<and>
   saves (trace (handleSendMessage (sample_env null_service) ''draw a cat'' idle_world)) =
     [[userMessage ''draw a cat''],
      [error_reply (TypeError (''Cannot read properties of null (reading '' @ [CHR 0x27] @
         ''prompt'' @ [CHR 0x27] @ '')''))]] \<and>
   hd (last (saves (trace (handleSendMessage (sample_env null_service) ''draw a cat''
     idle_world)))) \<noteq> asking [null_call] \<and>
   read_response (fetch (sample_env tostring_service)
      (build_request (messages idle_world @ [userMessage ''draw a cat''])
         (conversationMode idle_world) ''key'')) = Inr (asking [tostring_call]) \<and>
   JSON_parse (fn_arguments tostring_call) =
     Inr (JObj [(''prompt'', JObj [(''toString'', JNum ''1'')])]) \<and>
   saves (trace (handleSendMessage (sample_env tostring_service) ''draw a cat'' idle_world)) =
     [[userMessage ''draw a cat''],
      [error_reply (TypeError ''Cannot convert object to primitive value'')]] \<and>
   read_response (fetch (sample_env surrogate_service)
      (build_request (messages idle_world @ [userMessage ''draw a cat''])
         (conversationMode idle_world) ''key'')) = Inr (asking [surrogate_call]) \<and>
   JSON_parse (fn_arguments surrogate_call) =
     Inr (JObj [(''prompt'', JStr [CHR 0xED, CHR 0xA0, CHR 0x80])]) \<and>
   saves (trace (handleSendMessage (sample_env surrogate_service) ''draw a cat'' idle_world)) =
     [[userMessage ''draw a cat''], [error_reply (URIError ''URI malformed'')]] \<and>
   read_response (fetch (sample_env second_fails_service)
      (build_request (messages idle_world @ [userMessage ''draw a cat''])
         (conversationMode idle_world) ''key'')) = Inr (asking [image_call]) \<and>
   JSON_parse (fn_arguments image_call) = Inr (JObj [(''prompt'', JStr ''a cat'')]) \<and>
   saves (trace (handleSendMessage (sample_env second_fails_service) ''draw a cat'' idle_world)) =
     [[userMessage ''draw a cat''], [error_reply (Error invalid_key_message)]] \<and>
   hd (last (saves (trace (handleSendMessage (sample_env second_fails_service) ''draw a cat''
     idle_world)))) \<noteq> asking [image_call]"
proof -
  have null: "read_response (fetch (sample_env null_service)
      (build_request (messages idle_world @ [userMessage ''draw a cat''])
         (conversationMode idle_world) ''key'')) = Inr (asking [null_call]) \<and>
   JSON_parse (fn_arguments null_call) = Inr JNull \<and>
   saves (trace (handleSendMessage (sample_env null_service) ''draw a cat'' idle_world)) =
     [[userMessage ''draw a cat''],
      [error_reply (TypeError (''Cannot read properties of null (reading '' @ [CHR 0x27] @
         ''prompt'' @ [CHR 0x27] @ '')''))]] \<and>
   hd (last (saves (trace (handleSendMessage (sample_env null_service) ''draw a cat''
     idle_world)))) \<noteq> asking [null_call]"
    by (simp add: pass_defs null_service_def null_call_def Let_def)
  have tostring: "read_response (fetch (sample_env tostring_service)
      (build_request (messages idle_world @ [userMessage ''draw a cat''])
         (conversationMode idle_world) ''key'')) = Inr (asking [tostring_call]) \<and>
   JSON_parse (fn_arguments tostring_call) =
     Inr (JObj [(''prompt'', JObj [(''toString'', JNum ''1'')])]) \<and>
   saves (trace (handleSendMessage (sample_env tostring_service) ''draw a cat'' idle_world)) =
     [[userMessage ''draw a cat''],
      [error_reply (TypeError ''Cannot convert object to primitive value'')]]"
    by (simp add: pass_defs tostring_service_def tostring_call_def Let_def)
  have surrogate: "read_response (fetch (sample_env surrogate_service)
      (build_request (messages idle_world @ [userMessage ''draw a cat''])
         (conversationMode idle_world) ''key'')) = Inr (asking [surrogate_call]) \<and>
   JSON_parse (fn_arguments surrogate_call) =
     Inr (JObj [(''prompt'', JStr [CHR 0xED, CHR 0xA0, CHR 0x80])]) \<and>
   saves (trace (handleSendMessage (sample_env surrogate_service) ''draw a cat'' idle_world)) =
     [[userMessage ''draw a cat''], [error_reply (URIError ''URI malformed'')]]"
    by (simp add: pass_defs surrogate_service_def surrogate_call_def encodeURIComponent_def
          Let_def)
  have second: "read_response (fetch (sample_env second_fails_service)
      (build_request (messages idle_world @ [userMessage ''draw a cat''])
         (conversationMode idle_world) ''key'')) = Inr (asking [image_call]) \<and>
   JSON_parse (fn_arguments image_call) = Inr (JObj [(''prompt'', JStr ''a cat'')]) \<and>
   saves (trace (handleSendMessage (sample_env second_fails_service) ''draw a cat'' idle_world)) =
     [[userMessage ''draw a cat''], [error_reply (Error invalid_key_message)]] \<and>
   hd (last (saves (trace (handleSendMessage (sample_env second_fails_service) ''draw a cat''
     idle_world)))) \<noteq> asking [image_call]"
    by (simp add: pass_defs second_fails_service_def image_call_def encodeURIComponent_def
          percent_byte_def uri_unreserved_def hex_digit_def Let_def)
  from null tostring surrogate second show ?thesis by blast
qed

subsection \<open>Undeclared tools\<close>

text \<open>
  C7, as the code has it. The dispatch gives the fixed text \<open>unknown_tool_result\<close> for a
  name that is not declared, whatever the parsed arguments are, and raises nothing; so a
  call of an undeclared name whose payload parses yields a tool message with that content.
  When every tool call of a pass yields a result and the second completion returns a
  message, the pass ends in \<open>Done\<close>: both requests are sent, the full batch is saved in
  one save, and the tool message of every undeclared call holds the fixed text.
\<close>

theorem unknown_capability_sentinel:
  "(fn_name tc \<notin> declared \<longrightarrow>
      execute_tool (fn_name tc) v = Inr unknown_tool_result \<and>
      (fn_arguments tc = Text_of v \<longrightarrow>
         tool_result tc = Inr unknown_tool_result \<and>
         content (toolMessage tc (projr (tool_result tc))) = unknown_tool_result)) \<and>
   (\<not> blank userInput \<and> \<not> isLoading w \<and> API_KEY e = Some apiKey \<and> apiKey \<noteq> [] \<and>
    read_response (fetch e (build_request (messages w @ [userMessage userInput])
      (conversationMode w) apiKey)) = Inr a \<and>
    tool_calls a = Some tcs \<and> tcs \<noteq> [] \<and>
    (\<forall>t \<in> set tcs. \<exists>r. tool_result t = Inr r) \<and>
    toolMsgs = map (\<lambda>t. toolMessage t (projr (tool_result t))) tcs \<and>
    read_response (fetch e (build_request
      (messages w @ [userMessage userInput, a] @ toolMsgs) (conversationMode w) apiKey)) =
      Inr final \<longrightarrow>
      pass_outcome e userInput w = Done \<and>
      fetches (trace (handleSendMessage e userInput w)) =
        fetches (trace w) @
          [build_request (messages w @ [userMessage userInput]) (conversationMode w) apiKey,
           build_request (messages w @ [userMessage userInput, a] @ toolMsgs)
             (conversationMode w) apiKey] \<and>
      saves (trace (handleSendMessage e userInput w)) =
        saves (trace w) @ [[userMessage userInput], a # toolMsgs @ [final]] \<and>
      (\<forall>i < length tcs. fn_name (tcs ! i) \<notin> declared \<longrightarrow>
         toolMsgs ! i = toolMessage (tcs ! i) unknown_tool_result))"
proof (intro conjI impI)
  assume u: "fn_name tc \<notin> declared"
  show "execute_tool (fn_name tc) v = Inr unknown_tool_result"
    using u by (rule execute_unknown)
  assume "fn_arguments tc = Text_of v"
  then show r: "tool_result tc = Inr unknown_tool_result"
    using u by (simp add: tool_result_def JSON_parse_def execute_unknown)
  show "content (toolMessage tc (projr (tool_result tc))) = unknown_tool_result"
    by (simp add: r toolMessage_def)
next
  assume h: "\<not> blank userInput \<and> \<not> isLoading w \<and> API_KEY e = Some apiKey \<and> apiKey \<noteq> [] \<and>
    read_response (fetch e (build_request (messages w @ [userMessage userInput])
      (conversationMode w) apiKey)) = Inr a \<and>
    tool_calls a = Some tcs \<and> tcs \<noteq> [] \<and>
    (\<forall>t \<in> set tcs. \<exists>r. tool_result t = Inr r) \<and>
    toolMsgs = map (\<lambda>t. toolMessage t (projr (tool_result t))) tcs \<and>
    read_response (fetch e (build_request
      (messages w @ [userMessage userInput, a] @ toolMsgs) (conversationMode w) apiKey)) =
      Inr final"
  then have ok: "\<And>t. t \<in> set tcs \<Longrightarrow> \<exists>r. tool_result t = Inr r" by blast
  have tm: "tool_messages tcs = Inr toolMsgs"
    using tool_messages_ok[OF ok] h by simp
  note world = tool_pass_world[of userInput w e apiKey a tcs toolMsgs final]
  from h tm show "pass_outcome e userInput w = Done"
    using world(1) by blast
  from h tm show "fetches (trace (handleSendMessage e userInput w)) =
        fetches (trace w) @
          [build_request (messages w @ [userMessage userInput]) (conversationMode w) apiKey,
           build_request (messages w @ [userMessage userInput, a] @ toolMsgs)
             (conversationMode w) apiKey]"
    using world(5) by blast
  from h tm show "saves (trace (handleSendMessage e userInput w)) =
        saves (trace w) @ [[userMessage userInput], a # toolMsgs @ [final]]"
    using world(2) by blast
  show "\<forall>i < length tcs. fn_name (tcs ! i) \<notin> declared \<longrightarrow>
         toolMsgs ! i = toolMessage (tcs ! i) unknown_tool_result"
  proof (intro allI impI)
    fix i assume i: "i < length tcs" and u: "fn_name (tcs ! i) \<notin> declared"
    obtain r where r: "tool_result (tcs ! i) = Inr r" using ok[of "tcs ! i"] i by auto
    then have "r = unknown_tool_result"
      using u by (auto simp: tool_result_def execute_unknown split: sum.splits)
    with r i h show "toolMsgs ! i = toolMessage (tcs ! i) unknown_tool_result" by simp
  qed
qed

theorem unknown_capability_sentinel_witness:
  "pass_outcome (sample_env unknown_service) ''traduza oi'' idle_world = Done \<and>
   saves (trace (handleSendMessage (sample_env unknown_service) ''traduza oi'' idle_world)) =
     [[userMessage ''traduza oi''],
      [asking [unknown_call], toolMessage unknown_call ''Ferramenta desconhecida.'',
       plain Assistant ''Nao sei traduzir.'']] \<and>
   length (fetches (trace (handleSendMessage (sample_env unknown_service) ''traduza oi''
     idle_world))) = 2"
proof -
  let ?e = "sample_env unknown_service"
  let ?ms = "map (\<lambda>t. toolMessage t (projr (tool_result t))) [unknown_call]"
  have u: "fn_name unknown_call \<notin> declared"
    by (simp add: unknown_call_def declared_def)
  have a: "fn_arguments unknown_call = Text_of (JObj [(''text'', JStr ''oi'')])"
    by (simp add: unknown_call_def)
  have r: "tool_result unknown_call = Inr unknown_tool_result"
    using unknown_capability_sentinel [of unknown_call "JObj [(''text'', JStr ''oi'')]"] u a
    by blast
  have h: "\<not> blank ''traduza oi'' \<and> \<not> isLoading idle_world \<and> API_KEY ?e = Some ''key'' \<and>
    ''key'' \<noteq> [] \<and>
    read_response (fetch ?e (build_request (messages idle_world @ [userMessage ''traduza oi''])
      (conversationMode idle_world) ''key'')) = Inr (asking [unknown_call]) \<and>
    tool_calls (asking [unknown_call]) = Some [unknown_call] \<and> [unknown_call] \<noteq> [] \<and>
    (\<forall>t \<in> set [unknown_call]. \<exists>r. tool_result t = Inr r) \<and>
    ?ms = map (\<lambda>t. toolMessage t (projr (tool_result t))) [unknown_call] \<and>
    read_response (fetch ?e (build_request
      (messages idle_world @ [userMessage ''traduza oi'', asking [unknown_call]] @ ?ms)
      (conversationMode idle_world) ''key'')) = Inr (plain Assistant ''Nao sei traduzir.'')"
    using r
    by (simp add: sample_env_def unknown_service_def scripted_def completes_def asking_def
          build_request_def messagesPayload_def read_response_def ok_def JSON_parse_def
          idle_world_def white1_def white2_def white3_def)
  show ?thesis
    using unknown_capability_sentinel [of unknown_call "JObj [(''text'', JStr ''oi'')]"
        "''traduza oi''" idle_world ?e "''key''" "asking [unknown_call]" "[unknown_call]" ?ms
        "plain Assistant ''Nao sei traduzir.''"] h r
    by (simp add: idle_world_def unknown_tool_result_def)
qed

text \<open>
  The payload is parsed before the dispatch on the name: an undeclared name with a payload
  that does not parse fails the pass, and the second request is never sent.
\<close>

theorem unknown_capability_counterexample:
  "fn_name broken_call \<notin> declared \<and>
   pass_outcome (sample_env broken_service) ''traduza oi'' idle_world =
     Failed (SyntaxError ''Unterminated string in JSON at position 9'') \<and>
   saves (trace (handleSendMessage (sample_env broken_service) ''traduza oi'' idle_world)) =
     [[userMessage ''traduza oi''],
      [error_reply (SyntaxError ''Unterminated string in JSON at position 9'')]] \<and>
   length (fetches (trace (handleSendMessage (sample_env broken_service) ''traduza oi''
     idle_world))) = 1"
  by (simp add: pass_defs broken_service_def broken_call_def declared_def Let_def)


end
